theory Spec2Isabelle
  imports
    Complex_Main
    "HOL-Library.Char_ord"
    "HOL-Library.List_Lexorder"
    "HOL-Library.Product_Lexorder"
    "HOL-Library.Multiset"
    "HOL-Library.Sublist"
begin

section \<open>The MovieLens analytics engine\<close>

text \<open>
  A shallow embedding of \<^verbatim>\<open>scripts/movielens_data_loader.py\<close> and
  \<^verbatim>\<open>scripts/movielens_analyzer.py\<close>.

  \<^item> A pandas data frame is the list of its rows, in row order; a row is a record.
  \<^item> A missing cell (\<^verbatim>\<open>NaN\<close>/\<^verbatim>\<open>None\<close>) is \<open>None\<close> of an option type.
  \<^item> Python's \<^verbatim>\<open>int\<close> is \<open>int\<close>. A \<^verbatim>\<open>float\<close> is a \<open>real\<close>, the value of the double. The
    special values that the code tests for (\<^verbatim>\<open>NaN\<close> from a division \<open>0/0\<close>, the infinities)
    are explicit.
  \<^item> The analyses are given twice. First with exact arithmetic, where a statistic is the
    real number that the formula denotes: this reading serves the properties that do not
    depend on the last places of a statistic (the loading, the natural keys, the genre
    ranking, the zero-variance case). Then over doubles, where the statistics that pandas
    and numpy compute are parameters and the arithmetic of the program itself is rounded:
    this reading serves the properties of the reported values and of the order they induce.
  \<^item> Strings are compared as Python compares them: lexicographically by code unit.
  \<^item> A raised exception is \<open>Inl\<close> of a sum type.
\<close>

subsection \<open>Errors\<close>

datatype error =
    DataDirectoryNotFound      \<comment> \<open>\<^verbatim>\<open>Exception("Data directory not found: ...")\<close>\<close>
  | RequiredFileNotFound       \<comment> \<open>\<^verbatim>\<open>Exception("Required data file not found: ...")\<close>\<close>
  | FileNotFoundError          \<comment> \<open>\<^verbatim>\<open>open()\<close> of an absent file\<close>
  | ZeroDivisionError
  | DataNotLoaded              \<comment> \<open>\<^verbatim>\<open>Exception("Data not loaded. Call download_and_load_data() first.")\<close>\<close>
  | NoneTypeError              \<comment> \<open>an operation on \<^verbatim>\<open>None\<close> (\<^verbatim>\<open>AttributeError\<close>, \<^verbatim>\<open>TypeError\<close>)\<close>
  | AttributeError             \<comment> \<open>\<^verbatim>\<open>.str\<close> on a column without strings\<close>
  | ReError                    \<comment> \<open>\<^verbatim>\<open>re.error\<close>: the pattern is not a regular expression\<close>
  | IndexError                 \<comment> \<open>\<^verbatim>\<open>.iloc[0]\<close> on an empty frame\<close>
  | KeyError                   \<comment> \<open>a merge on a column the frame does not have\<close>
  | MovieNotFound              \<comment> \<open>\<^verbatim>\<open>Exception("Could not find movie matching ...")\<close>\<close>

subsection \<open>The tables\<close>

record rating_row =
  r_user_id :: int
  r_movie_id :: int
  r_rating :: int
  r_timestamp :: int

record user_row =
  u_user_id :: int
  u_age :: int
  u_gender :: string
  u_occupation :: string
  u_zip_code :: string

text \<open>
  A row of \<^verbatim>\<open>u.item\<close>. \<open>m_genre_flags\<close> holds the 19 indicator columns in file order.
\<close>

record movie_row =
  m_movie_id :: int
  m_title :: "string option"
  m_release_date :: "string option"
  m_genre_flags :: "int list"

record genre_row =
  g_genre :: string
  g_genre_id :: int

record movie_genre_row =
  mg_movie_id :: int
  mg_title :: "string option"
  mg_genre :: string

subsection \<open>pandas, numpy and Python primitives\<close>

text \<open>
  \<^verbatim>\<open>df.groupby(key)\<close> with the default \<^verbatim>\<open>sort=True\<close>: one group for each distinct key,
  the groups in ascending key order, the rows of a group in their original order.
\<close>

definition groupby :: "('a \<Rightarrow> 'k::linorder) \<Rightarrow> 'a list \<Rightarrow> ('k \<times> 'a list) list" where
  "groupby key rows =
     map (\<lambda>k. (k, filter (\<lambda>r. key r = k) rows)) (sort (remdups (map key rows)))"

text \<open>The aggregations \<^verbatim>\<open>mean\<close> and \<^verbatim>\<open>std\<close> (sample standard deviation, \<^verbatim>\<open>ddof=1\<close>;
  \<^verbatim>\<open>NaN\<close>, here \<open>None\<close>, for fewer than two values) of an integer column.\<close>

definition mean :: "int list \<Rightarrow> real" where
  "mean xs = real_of_int (sum_list xs) / real (length xs)"

definition sample_var :: "int list \<Rightarrow> real" where
  "sample_var xs = (\<Sum>x\<leftarrow>xs. (real_of_int x - mean xs)\<^sup>2) / (real (length xs) - 1)"

definition std :: "int list \<Rightarrow> real option" where
  "std xs = (if length xs < 2 then None else Some (sqrt (sample_var xs)))"

text \<open>\<^verbatim>\<open>numpy.rint\<close>: the nearest integer, a tie going to the even neighbour.\<close>

definition rint :: "real \<Rightarrow> int" where
  "rint x =
     (let f = \<lfloor>x\<rfloor>; d = x - of_int f
      in if d < 1 / 2 then f else if 1 / 2 < d then f + 1 else if even f then f else f + 1)"

text \<open>\<^verbatim>\<open>.round(d)\<close> of a float column: scale by \<open>10 ^ d\<close>, \<^verbatim>\<open>rint\<close>, scale back.\<close>

definition round_decimals :: "nat \<Rightarrow> real \<Rightarrow> real" where
  "round_decimals d x = of_int (rint (x * 10 ^ d)) / 10 ^ d"

text \<open>
  \<^verbatim>\<open>list.sort(key=..., reverse=True)\<close> and \<^verbatim>\<open>sorted(..., reverse=True)\<close>: CPython reverses
  the list, sorts it stably in ascending order, and reverses the result, so elements with
  equal keys keep their original order. \<open>sort_key\<close> is a stable insertion sort.
  \<^verbatim>\<open>sort_values(col, ascending=False)\<close> is modelled by the same function; pandas' default
  sorting algorithm fixes no order among rows with equal keys, and no property below
  depends on that order.
\<close>

definition sort_descending :: "('a \<Rightarrow> 'k::linorder) \<Rightarrow> 'a list \<Rightarrow> 'a list" where
  "sort_descending key xs = rev (sort_key key (rev xs))"

text \<open>\<^verbatim>\<open>xs[:n]\<close> and \<^verbatim>\<open>df.head(n)\<close>: the first \<open>n\<close> rows; for a negative \<open>n\<close>, all rows
  but the last \<open>-n\<close>.\<close>

definition head :: "int \<Rightarrow> 'a list \<Rightarrow> 'a list" where
  "head n xs = (if 0 \<le> n then take (nat n) xs else take (length xs - nat (- n)) xs)"

subsection \<open>Task 1: mean age by occupation\<close>

text \<open>A row of \<^verbatim>\<open>groupby('occupation')['age'].agg(['mean','count','std','min','max'])\<close>.\<close>

record age_agg =
  ag_mean :: real
  ag_count :: nat
  ag_std :: "real option"
  ag_min :: int
  ag_max :: int

text \<open>The aggregate of one group, after \<^verbatim>\<open>.round(2)\<close>, which rounds the float columns
  \<^verbatim>\<open>mean\<close> and \<^verbatim>\<open>std\<close> and leaves the integer columns as they are.\<close>

definition agg_age :: "int list \<Rightarrow> age_agg" where
  "agg_age ages =
     \<lparr>ag_mean = round_decimals 2 (mean ages),
      ag_count = length ages,
      ag_std = map_option (round_decimals 2) (std ages),
      ag_min = Min (set ages),
      ag_max = Max (set ages)\<rparr>"

record occupation_result =
  occupation :: string
  mean_age :: real
  user_count :: int
  std_dev :: real
  min_age :: int
  max_age :: int

definition occupation_record :: "string \<times> age_agg \<Rightarrow> occupation_result" where
  "occupation_record = (\<lambda>(occ, stats).
     \<lparr>occupation = occ,
      mean_age = ag_mean stats,
      user_count = int (ag_count stats),
      std_dev = (case ag_std stats of Some s \<Rightarrow> s | None \<Rightarrow> 0),
      min_age = ag_min stats,
      max_age = ag_max stats\<rparr>)"

text \<open>The body of \<^verbatim>\<open>analyze_mean_age_by_occupation\<close>, from the loaded Users table on.\<close>

definition mean_age_by_occupation :: "user_row list \<Rightarrow> occupation_result list" where
  "mean_age_by_occupation users_df =
     (let occupation_age_stats =
            map (\<lambda>(occ, rows). (occ, agg_age (map u_age rows))) (groupby u_occupation users_df);
          results = map occupation_record occupation_age_stats
      in sort_descending mean_age results)"

text \<open>The \<^verbatim>\<open>age\<close> column of the group of one occupation.\<close>

definition ages_of :: "string \<Rightarrow> user_row list \<Rightarrow> int list" where
  "ages_of occ users_df = map u_age (filter (\<lambda>u. u_occupation u = occ) users_df)"

text \<open>The list \<^verbatim>\<open>results\<close> before the final sort: one record for each group, in group order.\<close>

definition occupation_rows :: "user_row list \<Rightarrow> occupation_result list" where
  "occupation_rows users_df =
     map (\<lambda>occ. occupation_record (occ, agg_age (map u_age (filter (\<lambda>u. u_occupation u = occ) users_df))))
       (sort (remdups (map u_occupation users_df)))"

subsection \<open>Task 2: top rated movies\<close>

text \<open>\<^verbatim>\<open>df.iloc[0]\<close>: the first row, \<^verbatim>\<open>IndexError\<close> on an empty frame.\<close>

definition iloc0 :: "'a list \<Rightarrow> error + 'a" where
  "iloc0 xs = (case xs of [] \<Rightarrow> Inl IndexError | x # _ \<Rightarrow> Inr x)"

text \<open>A \<^verbatim>\<open>for\<close> loop that appends one record for each row; the first exception ends it.\<close>

fun collect :: "('a \<Rightarrow> error + 'b) \<Rightarrow> 'a list \<Rightarrow> error + 'b list" where
  "collect f [] = Inr []"
| "collect f (x # xs) =
     (case f x of
        Inl e \<Rightarrow> Inl e
      | Inr y \<Rightarrow> (case collect f xs of Inl e \<Rightarrow> Inl e | Inr ys \<Rightarrow> Inr (y # ys)))"

text \<open>A row of \<^verbatim>\<open>groupby('movie_id')['rating'].agg(['mean','count','std']).round(3)\<close>.\<close>

record rating_agg =
  rg_mean :: real
  rg_count :: nat
  rg_std :: "real option"

definition agg_rating :: "int list \<Rightarrow> rating_agg" where
  "agg_rating rs =
     \<lparr>rg_mean = round_decimals 3 (mean rs),
      rg_count = length rs,
      rg_std = map_option (round_decimals 3) (std rs)\<rparr>"

record movie_result =
  movie_id :: int
  title :: "string option"
  avg_rating :: real
  rating_count :: int
  rating_std :: real
  release_date :: string

text \<open>\<^verbatim>\<open>x if pd.notna(x) else 'Unknown'\<close>\<close>

definition release_date_or_unknown :: "string option \<Rightarrow> string" where
  "release_date_or_unknown d = (case d of Some s \<Rightarrow> s | None \<Rightarrow> ''Unknown'')"

text \<open>The body of the loop that joins a row of statistics with the Movies table.\<close>

definition movie_record :: "movie_row list \<Rightarrow> int \<times> rating_agg \<Rightarrow> error + movie_result" where
  "movie_record movies_df = (\<lambda>(mid, stats).
     case iloc0 (filter (\<lambda>m. m_movie_id m = mid) movies_df) of
       Inl e \<Rightarrow> Inl e
     | Inr movie_info \<Rightarrow>
         Inr \<lparr>movie_id = mid,
              title = m_title movie_info,
              avg_rating = rg_mean stats,
              rating_count = int (rg_count stats),
              rating_std = (case rg_std stats of Some s \<Rightarrow> s | None \<Rightarrow> 0),
              release_date = release_date_or_unknown (m_release_date movie_info)\<rparr>)"

text \<open>\<^verbatim>\<open>movie_stats\<close>: the statistics of each rated movie.\<close>

definition movie_stats :: "rating_row list \<Rightarrow> (int \<times> rating_agg) list" where
  "movie_stats ratings_df =
     map (\<lambda>(mid, rows). (mid, agg_rating (map r_rating rows))) (groupby r_movie_id ratings_df)"

text \<open>The body of \<^verbatim>\<open>analyze_top_rated_movies\<close>, from the loaded tables on.\<close>

definition top_rated_movies ::
  "rating_row list \<Rightarrow> movie_row list \<Rightarrow> int \<Rightarrow> int \<Rightarrow> error + movie_result list" where
  "top_rated_movies ratings_df movies_df min_ratings top_n =
     (let qualified_movies =
            filter (\<lambda>(mid, stats). min_ratings \<le> int (rg_count stats)) (movie_stats ratings_df);
          top_movies = head top_n (sort_descending (\<lambda>(mid, stats). rg_mean stats) qualified_movies)
      in collect (movie_record movies_df) top_movies)"

text \<open>The \<^verbatim>\<open>rating\<close> column of the group of one movie.\<close>

definition ratings_of :: "int \<Rightarrow> rating_row list \<Rightarrow> int list" where
  "ratings_of mid ratings_df = map r_rating (filter (\<lambda>r. r_movie_id r = mid) ratings_df)"

text \<open>The rows of \<^verbatim>\<open>top_movies\<close>: the qualified movies, sorted, cut to \<^verbatim>\<open>top_n\<close>.\<close>

definition top_movies :: "rating_row list \<Rightarrow> int \<Rightarrow> int \<Rightarrow> (int \<times> rating_agg) list" where
  "top_movies ratings_df min_ratings top_n =
     head top_n (sort_descending (\<lambda>(mid, stats). rg_mean stats)
       (filter (\<lambda>(mid, stats). min_ratings \<le> int (rg_count stats)) (movie_stats ratings_df)))"

subsection \<open>Age buckets of the genre ranker\<close>

definition get_age_group :: "int \<Rightarrow> string" where
  "get_age_group age =
     (if 20 \<le> age \<and> age < 25 then ''20-25''
      else if 25 \<le> age \<and> age < 35 then ''25-35''
      else if 35 \<le> age \<and> age < 45 then ''35-45''
      else if age \<ge> 45 then ''45+''
      else ''Under 20'')"

subsection \<open>Task 3: top genres by occupation and age group\<close>

text \<open>
  \<^verbatim>\<open>left.merge(right, on=key)\<close>, an inner join: one row for each pair of a left and a right
  row with equal keys, in the order of the left rows.
\<close>

definition merge_on :: "('a \<Rightarrow> 'k) \<Rightarrow> ('b \<Rightarrow> 'k) \<Rightarrow> 'a list \<Rightarrow> 'b list \<Rightarrow> ('a \<times> 'b) list" where
  "merge_on kl kr left right =
     concat (map (\<lambda>l. map (Pair l) (filter (\<lambda>r. kr r = kl l) right)) left)"

text \<open>\<^verbatim>\<open>users_with_age_group\<close>: the Users table with the column \<^verbatim>\<open>age_group\<close> added.\<close>

definition users_with_age_group :: "user_row list \<Rightarrow> (user_row \<times> string) list" where
  "users_with_age_group users_df = map (\<lambda>u. (u, get_age_group (u_age u))) users_df"

text \<open>A label of the index of \<^verbatim>\<open>genre_stats\<close>: (occupation, age_group, genre).\<close>

type_synonym genre_key = "string \<times> string \<times> string"

record genre_agg =
  gg_mean :: real
  gg_count :: nat

definition agg_genre :: "int list \<Rightarrow> genre_agg" where
  "agg_genre rs = \<lparr>gg_mean = round_decimals 3 (mean rs), gg_count = length rs\<rparr>"

text \<open>
  \<^verbatim>\<open>genre_stats\<close>: the ratings joined with the users and with the movie-genre relation (a
  rating gives one row for each genre of its movie), grouped by occupation, age group and
  genre.
\<close>

definition genre_stats ::
  "rating_row list \<Rightarrow> user_row list \<Rightarrow> movie_genre_row list \<Rightarrow> (genre_key \<times> genre_agg) list" where
  "genre_stats ratings_df users_df movie_genres_df =
     (let ratings_with_demo =
            merge_on r_user_id (\<lambda>(u, ag). u_user_id u) ratings_df (users_with_age_group users_df);
          ratings_with_genres =
            merge_on (\<lambda>(r, u, ag). r_movie_id r) mg_movie_id ratings_with_demo movie_genres_df
      in map (\<lambda>(k, rows). (k, agg_genre (map (\<lambda>((r, u, ag), mg). r_rating r) rows)))
           (groupby (\<lambda>((r, u, ag), mg). (u_occupation u, ag, mg_genre mg)) ratings_with_genres))"

text \<open>
  An entry of \<^verbatim>\<open>top_genres\<close>. The loop variable \<^verbatim>\<open>genre\<close> of
  \<^verbatim>\<open>for genre, stats in top_genres.iterrows()\<close> is the index label of the row, and the
  frame keeps the three-level index of \<^verbatim>\<open>genre_stats\<close>: the field holds the whole label.
\<close>

record genre_entry =
  genre :: genre_key
  ge_avg_rating :: real
  ge_rating_count :: int

record segment_result =
  sg_occupation :: string
  sg_age_group :: string
  top_genres :: "genre_entry list"
  total_users :: int

definition genre_record :: "genre_key \<times> genre_agg \<Rightarrow> genre_entry" where
  "genre_record = (\<lambda>(label, stats).
     \<lparr>genre = label, ge_avg_rating = gg_mean stats, ge_rating_count = int (gg_count stats)\<rparr>)"

text \<open>The body of the loop over the (occupation, age_group) groups of \<^verbatim>\<open>genre_stats\<close>.\<close>

definition segment_record ::
  "(user_row \<times> string) list \<Rightarrow> (string \<times> string) \<times> (genre_key \<times> genre_agg) list \<Rightarrow> segment_result" where
  "segment_record uwag = (\<lambda>((occ, age_group), group_data).
     \<lparr>sg_occupation = occ,
      sg_age_group = age_group,
      top_genres = map genre_record (head 3 (sort_descending (\<lambda>(label, stats). gg_mean stats) group_data)),
      total_users = int (length (filter (\<lambda>(u, ag). u_occupation u = occ \<and> ag = age_group) uwag))\<rparr>)"

text \<open>
  The body of \<^verbatim>\<open>analyze_top_genres_by_occupation_age\<close>, from the loaded tables on. The
  loader builds \<^verbatim>\<open>movie_genres_df\<close> with \<^verbatim>\<open>pd.DataFrame\<close> from a list of rows; from an
  empty list the frame has no columns, and the merge on \<^verbatim>\<open>movie_id\<close> raises.
\<close>

definition top_genres_by_occupation_age ::
  "rating_row list \<Rightarrow> user_row list \<Rightarrow> movie_genre_row list \<Rightarrow> error + segment_result list" where
  "top_genres_by_occupation_age ratings_df users_df movie_genres_df =
     (if movie_genres_df = [] then Inl KeyError
      else
        let results =
              map (segment_record (users_with_age_group users_df))
                (groupby (\<lambda>((occ, age_group, g), stats). (occ, age_group))
                   (genre_stats ratings_df users_df movie_genres_df))
        in Inr (sort_key (\<lambda>x. (sg_occupation x, sg_age_group x)) results))"

text \<open>The list \<^verbatim>\<open>results\<close> of the genre ranker before the final sort, and the sort key.\<close>

definition segment_rows :: "rating_row list \<Rightarrow> user_row list \<Rightarrow> movie_genre_row list \<Rightarrow> segment_result list" where
  "segment_rows ratings_df users_df movie_genres_df =
     map (segment_record (users_with_age_group users_df))
       (groupby (\<lambda>((occ, age_group, g), stats). (occ, age_group))
          (genre_stats ratings_df users_df movie_genres_df))"

definition segment_key :: "segment_result \<Rightarrow> string \<times> string" where
  "segment_key x = (sg_occupation x, sg_age_group x)"

subsection \<open>Task 4: similar movies\<close>

text \<open>
  A double that may be infinite or \<^verbatim>\<open>NaN\<close>, and IEEE division on it. A finite quotient is
  exact. The divisors below are square roots, so a zero divisor is \<open>+0\<close>.
\<close>

datatype npfloat = Fin real | PInf | NInf | NaN

fun np_divide :: "npfloat \<Rightarrow> npfloat \<Rightarrow> npfloat" where
  "np_divide NaN _ = NaN"
| "np_divide _ NaN = NaN"
| "np_divide (Fin a) (Fin b) =
     (if b = 0 then (if a = 0 then NaN else if 0 < a then PInf else NInf) else Fin (a / b))"
| "np_divide (Fin a) _ = Fin 0"
| "np_divide PInf (Fin b) = (if 0 \<le> b then PInf else NInf)"
| "np_divide NInf (Fin b) = (if 0 \<le> b then NInf else PInf)"
| "np_divide _ _ = NaN"

text \<open>\<^verbatim>\<open>np.clip(c, -1, 1)\<close>; \<^verbatim>\<open>NaN\<close> (here \<open>None\<close>) stays \<^verbatim>\<open>NaN\<close>.\<close>

fun np_clip :: "npfloat \<Rightarrow> real option" where
  "np_clip NaN = None"
| "np_clip PInf = Some 1"
| "np_clip NInf = Some (- 1)"
| "np_clip (Fin r) = Some (max (- 1) (min 1 r))"

text \<open>
  An entry of the matrix of \<^verbatim>\<open>np.cov\<close>: the deviations from the means, multiplied pairwise,
  summed, divided by \<open>N - 1\<close>. The analysis calls it with at least two pairs.
\<close>

definition cov :: "int list \<Rightarrow> int list \<Rightarrow> real" where
  "cov xs ys =
     (\<Sum>(x, y)\<leftarrow>zip xs ys. (real_of_int x - mean xs) * (real_of_int y - mean ys))
       / (real (length xs) - 1)"

text \<open>
  \<^verbatim>\<open>np.corrcoef(x, y)[0, 1]\<close>: the covariance divided by the square root of the first
  variance, then by the square root of the second, then clipped to \<open>[-1, 1]\<close>.
\<close>

definition corrcoef :: "int list \<Rightarrow> int list \<Rightarrow> real option" where
  "corrcoef xs ys =
     (let c = cov xs ys; stddev0 = sqrt (cov xs xs); stddev1 = sqrt (cov ys ys)
      in np_clip (np_divide (np_divide (Fin c) (Fin stddev0)) (Fin stddev1)))"

text \<open>
  \<^verbatim>\<open>movies_df[movies_df['title'].str.contains(pat, case=False, na=False)]\<close>.

  The accessor \<^verbatim>\<open>.str\<close> raises \<^verbatim>\<open>AttributeError\<close> on a column that holds no string, which is
  the title column of a table whose titles are all missing. pandas then compiles the pattern
  as a regular expression with \<^verbatim>\<open>re.IGNORECASE\<close> and searches every title; a missing title
  does not match.

  A pattern made of plain ASCII characters and balanced parentheses is a sequence of literals
  and groups: it is found where the pattern without its parentheses occurs, ASCII letters
  compared without case. With unbalanced parentheses it does not compile (\<^verbatim>\<open>re.error\<close>). For
  every other pattern the regular-expression engine is a parameter: it yields the search
  predicate, or \<open>None\<close> when the pattern does not compile.
\<close>

definition is_special :: "char \<Rightarrow> bool" where
  "is_special c \<longleftrightarrow>
     c \<in> {CHR ''.'', CHR ''^'', CHR ''$'', CHR ''*'', CHR ''+'', CHR ''?'', CHR ''{'', CHR ''}'',
          CHR ''['', CHR '']'', CHR 0x5C, CHR ''|'', CHR ''('', CHR '')''}"

definition is_plain :: "char \<Rightarrow> bool" where
  "is_plain c \<longleftrightarrow> \<not> is_special c \<and> c < CHR 0x80"

text \<open>The pattern without its parentheses; \<open>None\<close> when they are not balanced. The number
  counts the groups that are open.\<close>

fun strip_groups :: "nat \<Rightarrow> string \<Rightarrow> string option" where
  "strip_groups depth [] = (if depth = 0 then Some [] else None)"
| "strip_groups depth (c # cs) =
     (if c = CHR ''('' then strip_groups (Suc depth) cs
      else if c = CHR '')'' then (case depth of 0 \<Rightarrow> None | Suc d \<Rightarrow> strip_groups d cs)
      else map_option ((#) c) (strip_groups depth cs))"

definition lower :: "char \<Rightarrow> char" where
  "lower c =
     (if CHR ''A'' \<le> c \<and> c \<le> CHR ''Z''
      then (case c of Char b0 b1 b2 b3 b4 b5 b6 b7 \<Rightarrow> Char b0 b1 b2 b3 b4 True b6 b7)
      else c)"

text \<open>The literal occurs in the string, ASCII letters compared without case.\<close>

definition contains_literal :: "string \<Rightarrow> string \<Rightarrow> bool" where
  "contains_literal pat s = sublist (map lower pat) (map lower s)"

definition compile_pattern ::
  "(string \<Rightarrow> (string \<Rightarrow> bool) option) \<Rightarrow> string \<Rightarrow> error + (string \<Rightarrow> bool)" where
  "compile_pattern engine pat =
     (if list_all (\<lambda>c. is_plain c \<or> c = CHR ''('' \<or> c = CHR '')'') pat
      then (case strip_groups 0 pat of
              Some literal \<Rightarrow> Inr (contains_literal literal)
            | None \<Rightarrow> Inl ReError)
      else (case engine pat of Some search \<Rightarrow> Inr search | None \<Rightarrow> Inl ReError))"

definition title_matches :: "(string \<Rightarrow> bool) \<Rightarrow> string option \<Rightarrow> bool" where
  "title_matches search t = (case t of None \<Rightarrow> False | Some s \<Rightarrow> search s)"

definition str_contains ::
  "(string \<Rightarrow> (string \<Rightarrow> bool) option) \<Rightarrow> string \<Rightarrow> movie_row list \<Rightarrow> error + movie_row list" where
  "str_contains engine pat movies_df =
     (if movies_df \<noteq> [] \<and> list_all (\<lambda>m. m_title m = None) movies_df then Inl AttributeError
      else case compile_pattern engine pat of
             Inl e \<Rightarrow> Inl e
           | Inr search \<Rightarrow> Inr (filter (\<lambda>m. title_matches search (m_title m)) movies_df))"

text \<open>The target movie: the first row that matches the given title, or else the first
  row that matches the fixed title.\<close>

definition find_target ::
  "(string \<Rightarrow> (string \<Rightarrow> bool) option) \<Rightarrow> string \<Rightarrow> movie_row list \<Rightarrow> error + movie_row" where
  "find_target engine target_movie movies_df =
     (case str_contains engine target_movie movies_df of
        Inl e \<Rightarrow> Inl e
      | Inr first_match \<Rightarrow>
          (case (if first_match = [] then str_contains engine ''Usual Suspects'' movies_df
                 else Inr first_match) of
             Inl e \<Rightarrow> Inl e
           | Inr target_movie_match \<Rightarrow>
               (case target_movie_match of [] \<Rightarrow> Inl MovieNotFound | m # _ \<Rightarrow> Inr m)))"

text \<open>An engine that compiles nothing, for patterns that do not reach it.\<close>

definition no_engine :: "string \<Rightarrow> (string \<Rightarrow> bool) option" where
  "no_engine pat = None"

text \<open>The users who rated both movies.\<close>

definition common_users :: "int set \<Rightarrow> rating_row list \<Rightarrow> int set" where
  "common_users target_users movie_ratings = set (map r_user_id movie_ratings) \<inter> target_users"

text \<open>The two rating columns aligned on \<^verbatim>\<open>user_id\<close>.\<close>

definition merged_ratings ::
  "rating_row list \<Rightarrow> rating_row list \<Rightarrow> int set \<Rightarrow> (rating_row \<times> rating_row) list" where
  "merged_ratings target_movie_ratings movie_ratings common =
     (let target_ratings_common = filter (\<lambda>r. r_user_id r \<in> common) target_movie_ratings;
          movie_ratings_common = filter (\<lambda>r. r_user_id r \<in> common) movie_ratings
      in merge_on r_user_id r_user_id target_ratings_common movie_ratings_common)"

definition target_vals :: "(rating_row \<times> rating_row) list \<Rightarrow> int list" where
  "target_vals merged = map (\<lambda>(t, m). r_rating t) merged"

definition movie_vals :: "(rating_row \<times> rating_row) list \<Rightarrow> int list" where
  "movie_vals merged = map (\<lambda>(t, m). r_rating m) merged"

text \<open>The correlation, with \<^verbatim>\<open>NaN\<close> replaced by 0, and the similarity score.\<close>

definition pair_correlation :: "(rating_row \<times> rating_row) list \<Rightarrow> real" where
  "pair_correlation merged =
     (case corrcoef (target_vals merged) (movie_vals merged) of None \<Rightarrow> 0 | Some c \<Rightarrow> c)"

definition pair_similarity :: "(rating_row \<times> rating_row) list \<Rightarrow> real" where
  "pair_similarity merged = (pair_correlation merged + 1) / 2"

text \<open>A value of the dictionary \<^verbatim>\<open>movie_similarities\<close>.\<close>

record similarity_data =
  sd_similarity_score :: real
  sd_cooccurrence_count :: nat
  sd_correlation :: real

text \<open>The body of the loop over the co-rated movies: \<open>None\<close> when the movie is skipped.\<close>

definition candidate_similarity ::
  "rating_row list \<Rightarrow> int set \<Rightarrow> real \<Rightarrow> int \<Rightarrow> rating_row list \<Rightarrow> similarity_data option" where
  "candidate_similarity target_movie_ratings target_users similarity_threshold
       cooccurrence_threshold movie_ratings =
     (let common = common_users target_users movie_ratings;
          cooccurrence_count = card common
      in if int cooccurrence_count < cooccurrence_threshold then None
         else
           let merged = merged_ratings target_movie_ratings movie_ratings common
           in if length merged < 2 then None
              else
                let correlation = pair_correlation merged;
                    similarity_score = pair_similarity merged
                in if similarity_threshold \<le> similarity_score
                   then Some \<lparr>sd_similarity_score = similarity_score,
                              sd_cooccurrence_count = cooccurrence_count,
                              sd_correlation = correlation\<rparr>
                   else None)"

record similar_result =
  sm_movie_id :: int
  sm_title :: "string option"
  similarity_score :: real
  cooccurrence_count :: int
  correlation :: real
  sm_release_date :: string

definition similar_record :: "movie_row list \<Rightarrow> int \<times> similarity_data \<Rightarrow> error + similar_result" where
  "similar_record movies_df = (\<lambda>(mid, similarity_data).
     case iloc0 (filter (\<lambda>m. m_movie_id m = mid) movies_df) of
       Inl e \<Rightarrow> Inl e
     | Inr movie_info \<Rightarrow>
         Inr \<lparr>sm_movie_id = mid,
              sm_title = m_title movie_info,
              similarity_score = sd_similarity_score similarity_data,
              cooccurrence_count = int (sd_cooccurrence_count similarity_data),
              correlation = sd_correlation similarity_data,
              sm_release_date = release_date_or_unknown (m_release_date movie_info)\<rparr>)"

text \<open>The ratings of the target movie, and the ratings of the other movies by its users.\<close>

definition target_movie_ratings :: "int \<Rightarrow> rating_row list \<Rightarrow> rating_row list" where
  "target_movie_ratings target_movie_id ratings_df =
     filter (\<lambda>r. r_movie_id r = target_movie_id) ratings_df"

definition corated_movies :: "int \<Rightarrow> rating_row list \<Rightarrow> rating_row list" where
  "corated_movies target_movie_id ratings_df =
     (let target_users = set (map r_user_id (target_movie_ratings target_movie_id ratings_df))
      in filter (\<lambda>r. r_movie_id r \<noteq> target_movie_id)
           (filter (\<lambda>r. r_user_id r \<in> target_users) ratings_df))"

text \<open>The items of \<^verbatim>\<open>movie_similarities\<close>, in insertion order.\<close>

definition movie_similarities ::
  "int \<Rightarrow> real \<Rightarrow> int \<Rightarrow> rating_row list \<Rightarrow> (int \<times> similarity_data) list" where
  "movie_similarities target_movie_id similarity_threshold cooccurrence_threshold ratings_df =
     (let target_ratings = target_movie_ratings target_movie_id ratings_df;
          target_users = set (map r_user_id target_ratings)
      in List.map_filter
           (\<lambda>(mid, movie_ratings).
              map_option (Pair mid)
                (candidate_similarity target_ratings target_users similarity_threshold
                   cooccurrence_threshold movie_ratings))
           (groupby r_movie_id (corated_movies target_movie_id ratings_df)))"

text \<open>The part of \<^verbatim>\<open>find_similar_movies\<close> after the target movie is found.\<close>

definition similar_to ::
  "int \<Rightarrow> real \<Rightarrow> int \<Rightarrow> int \<Rightarrow> rating_row list \<Rightarrow> movie_row list \<Rightarrow> error + similar_result list" where
  "similar_to target_movie_id similarity_threshold cooccurrence_threshold top_n ratings_df movies_df =
     (let sorted_movies =
            head top_n (sort_descending (\<lambda>(mid, d). sd_similarity_score d)
              (movie_similarities target_movie_id similarity_threshold cooccurrence_threshold
                 ratings_df))
      in collect (similar_record movies_df) sorted_movies)"

text \<open>The body of \<^verbatim>\<open>find_similar_movies\<close>, from the loaded tables on.\<close>

definition similar_movies ::
  "(string \<Rightarrow> (string \<Rightarrow> bool) option) \<Rightarrow> string \<Rightarrow> real \<Rightarrow> int \<Rightarrow> int \<Rightarrow> rating_row list \<Rightarrow> movie_row list
     \<Rightarrow> error + similar_result list" where
  "similar_movies engine target_movie similarity_threshold cooccurrence_threshold top_n
       ratings_df movies_df =
     (case find_target engine target_movie movies_df of
        Inl e \<Rightarrow> Inl e
      | Inr target \<Rightarrow>
          similar_to (m_movie_id target) similarity_threshold cooccurrence_threshold top_n
            ratings_df movies_df)"

text \<open>The rows of \<^verbatim>\<open>sorted_movies\<close>: the kept movies, sorted, cut to \<^verbatim>\<open>top_n\<close>.\<close>

definition sorted_movies :: "int \<Rightarrow> real \<Rightarrow> int \<Rightarrow> int \<Rightarrow> rating_row list \<Rightarrow> (int \<times> similarity_data) list" where
  "sorted_movies tid thr cthr top_n ratings_df =
     head top_n (sort_descending (\<lambda>(mid, d). sd_similarity_score d)
       (movie_similarities tid thr cthr ratings_df))"

subsection \<open>The loader and the module state\<close>

text \<open>
  The dataset directory as the loader sees it: whether it exists, and for each file the rows
  that \<^verbatim>\<open>read_csv\<close> yields, or \<open>None\<close> when the file is absent. Parsing is pandas'.
\<close>

record filesystem =
  fs_data_dir :: bool
  fs_ratings :: "rating_row list option"
  fs_users :: "user_row list option"
  fs_movies :: "movie_row list option"
  fs_genres :: "genre_row list option"
  fs_occupations :: "string list option"

text \<open>\<^verbatim>\<open>MovieLensDataLoader.__init__\<close>: the directory and the four required files must exist.\<close>

definition loader_init :: "filesystem \<Rightarrow> error + unit" where
  "loader_init fs =
     (if \<not> fs_data_dir fs then Inl DataDirectoryNotFound
      else if fs_ratings fs = None \<or> fs_users fs = None \<or> fs_movies fs = None \<or> fs_genres fs = None
      then Inl RequiredFileNotFound
      else Inr ())"

text \<open>The 19 genre columns, and the display name \<^verbatim>\<open>get_movie_genres\<close> derives from a column
  name: \<^verbatim>\<open>replace('_', '-').title()\<close>, three names kept or rewritten, and hyphens turned
  into blanks in the others.\<close>

definition genre_columns :: "string list" where
  "genre_columns =
     [''unknown'', ''action'', ''adventure'', ''animation'', ''childrens'', ''comedy'',
      ''crime'', ''documentary'', ''drama'', ''fantasy'', ''film_noir'', ''horror'',
      ''musical'', ''mystery'', ''romance'', ''sci_fi'', ''thriller'', ''war'', ''western'']"

definition replace_char :: "char \<Rightarrow> char \<Rightarrow> string \<Rightarrow> string" where
  "replace_char a b s = map (\<lambda>c. if c = a then b else c) s"

definition upper :: "char \<Rightarrow> char" where
  "upper c =
     (if CHR ''a'' \<le> c \<and> c \<le> CHR ''z''
      then (case c of Char b0 b1 b2 b3 b4 b5 b6 b7 \<Rightarrow> Char b0 b1 b2 b3 b4 False b6 b7)
      else c)"

definition is_letter :: "char \<Rightarrow> bool" where
  "is_letter c \<longleftrightarrow> (CHR ''a'' \<le> c \<and> c \<le> CHR ''z'') \<or> (CHR ''A'' \<le> c \<and> c \<le> CHR ''Z'')"

text \<open>\<^verbatim>\<open>str.title()\<close> on ASCII: a letter is upper case after a non-letter, lower case after
  a letter. The flag tells whether the previous character is a letter.\<close>

fun title_case :: "bool \<Rightarrow> string \<Rightarrow> string" where
  "title_case prev [] = []"
| "title_case prev (c # cs) =
     (if is_letter c then (if prev then lower c else upper c) # title_case True cs
      else c # title_case False cs)"

definition genre_display_name :: "string \<Rightarrow> string" where
  "genre_display_name genre_col =
     (let genre_name = title_case False (replace_char CHR ''_'' CHR ''-'' genre_col)
      in if genre_name = ''Sci-Fi'' then ''Sci-Fi''
         else if genre_name = ''Film-Noir'' then ''Film-Noir''
         else if genre_name = ''Childrens'' then ''Children's''
         else replace_char CHR ''-'' CHR '' '' genre_name)"

text \<open>\<^verbatim>\<open>get_movie_genres\<close>: one row for each genre column of a movie that holds 1.\<close>

definition get_movie_genres :: "movie_row list \<Rightarrow> genre_row list \<Rightarrow> movie_genre_row list" where
  "get_movie_genres movies_df genres_df =
     concat (map (\<lambda>movie.
       map (\<lambda>(genre_col, flag).
              \<lparr>mg_movie_id = m_movie_id movie, mg_title = m_title movie,
               mg_genre = genre_display_name genre_col\<rparr>)
         (filter (\<lambda>(genre_col, flag). flag = 1) (zip genre_columns (m_genre_flags movie))))
       movies_df)"

text \<open>The module-level variables of the loader. All are bound to \<^verbatim>\<open>None\<close> when the module
  is imported.\<close>

record globals =
  RATINGS_DF :: "rating_row list option"
  USERS_DF :: "user_row list option"
  MOVIES_DF :: "movie_row list option"
  GENRES_DF :: "genre_row list option"
  OCCUPATIONS_DF :: "string list option"
  MOVIE_GENRES_DF :: "movie_genre_row list option"

definition initial_globals :: globals where
  "initial_globals =
     \<lparr>RATINGS_DF = None, USERS_DF = None, MOVIES_DF = None, GENRES_DF = None,
      OCCUPATIONS_DF = None, MOVIE_GENRES_DF = None\<rparr>"

text \<open>
  \<^verbatim>\<open>download_and_load_data\<close>. The globals are assigned after all files are read; the
  statistics computed afterwards divide by the product of the numbers of users and movies.
  The returned dictionary of statistics is not modelled, only whether computing it raises.
\<close>

definition download_and_load_data :: "filesystem \<Rightarrow> globals \<Rightarrow> (error + unit) \<times> globals" where
  "download_and_load_data fs g =
     (case loader_init fs of
        Inl e \<Rightarrow> (Inl e, g)
      | Inr _ \<Rightarrow>
          (case (fs_ratings fs, fs_users fs, fs_movies fs, fs_genres fs) of
             (Some ratings_df, Some users_df, Some movies_df, Some genres_df) \<Rightarrow>
               (case fs_occupations fs of
                  None \<Rightarrow> (Inl FileNotFoundError, g)
                | Some occupations \<Rightarrow>
                    let movie_genres_df = get_movie_genres movies_df genres_df;
                        g' = \<lparr>RATINGS_DF = Some ratings_df, USERS_DF = Some users_df,
                              MOVIES_DF = Some movies_df, GENRES_DF = Some genres_df,
                              OCCUPATIONS_DF = Some occupations,
                              MOVIE_GENRES_DF = Some movie_genres_df\<rparr>
                    in if length users_df * length movies_df = 0 then (Inl ZeroDivisionError, g')
                       else (Inr (), g'))
           | _ \<Rightarrow> (Inl FileNotFoundError, g)))"

type_synonym tables =
  "rating_row list option \<times> user_row list option \<times> movie_row list option \<times>
   genre_row list option \<times> movie_genre_row list option"

text \<open>\<^verbatim>\<open>get_data\<close> returns the globals. Its \<^verbatim>\<open>NameError\<close> handler, which would raise
  \<open>DataNotLoaded\<close>, cannot run: the names are bound at import.\<close>

definition get_data :: "globals \<Rightarrow> error + tables" where
  "get_data g = Inr (RATINGS_DF g, USERS_DF g, MOVIES_DF g, GENRES_DF g, MOVIE_GENRES_DF g)"

text \<open>
  The opening of every analysis: inside \<^verbatim>\<open>try\<close>, get the data and, when a table the
  analysis needs is \<^verbatim>\<open>None\<close>, load and get again; on any exception, load and get once more.
\<close>

definition load_then_get :: "filesystem \<Rightarrow> globals \<Rightarrow> (error + tables) \<times> globals" where
  "load_then_get fs g =
     (case download_and_load_data fs g of
        (Inl e, g') \<Rightarrow> (Inl e, g')
      | (Inr _, g') \<Rightarrow> (get_data g', g'))"

definition acquire_data :: "(tables \<Rightarrow> bool) \<Rightarrow> filesystem \<Rightarrow> globals \<Rightarrow> (error + tables) \<times> globals" where
  "acquire_data is_missing fs g =
     (let attempt =
            (case get_data g of
               Inl e \<Rightarrow> (Inl e, g)
             | Inr t \<Rightarrow> if is_missing t then load_then_get fs g else (Inr t, g))
      in case attempt of
           (Inl _, g') \<Rightarrow> load_then_get fs g'
         | (Inr t, g') \<Rightarrow> (Inr t, g'))"

text \<open>The four analyses as called: on the file system and the module state.\<close>

definition analyze_mean_age_by_occupation ::
  "filesystem \<Rightarrow> globals \<Rightarrow> (error + occupation_result list) \<times> globals" where
  "analyze_mean_age_by_occupation fs g =
     (case acquire_data (\<lambda>(ratings_df, users_df, movies_df, genres_df, movie_genres_df).
              users_df = None) fs g of
        (Inl e, g') \<Rightarrow> (Inl e, g')
      | (Inr (ratings_df, users_df, movies_df, genres_df, movie_genres_df), g') \<Rightarrow>
          (case users_df of
             Some users \<Rightarrow> (Inr (mean_age_by_occupation users), g')
           | None \<Rightarrow> (Inl NoneTypeError, g')))"

definition analyze_top_rated_movies ::
  "int \<Rightarrow> int \<Rightarrow> filesystem \<Rightarrow> globals \<Rightarrow> (error + movie_result list) \<times> globals" where
  "analyze_top_rated_movies min_ratings top_n fs g =
     (case acquire_data (\<lambda>(ratings_df, users_df, movies_df, genres_df, movie_genres_df).
              ratings_df = None \<or> movies_df = None) fs g of
        (Inl e, g') \<Rightarrow> (Inl e, g')
      | (Inr (ratings_df, users_df, movies_df, genres_df, movie_genres_df), g') \<Rightarrow>
          (case (ratings_df, movies_df) of
             (Some ratings, Some movies) \<Rightarrow> (top_rated_movies ratings movies min_ratings top_n, g')
           | _ \<Rightarrow> (Inl NoneTypeError, g')))"

definition analyze_top_genres_by_occupation_age ::
  "filesystem \<Rightarrow> globals \<Rightarrow> (error + segment_result list) \<times> globals" where
  "analyze_top_genres_by_occupation_age fs g =
     (case acquire_data (\<lambda>(ratings_df, users_df, movies_df, genres_df, movie_genres_df).
              ratings_df = None \<or> users_df = None \<or> movie_genres_df = None) fs g of
        (Inl e, g') \<Rightarrow> (Inl e, g')
      | (Inr (ratings_df, users_df, movies_df, genres_df, movie_genres_df), g') \<Rightarrow>
          (case (ratings_df, users_df, movie_genres_df) of
             (Some ratings, Some users, Some movie_genres) \<Rightarrow>
               (top_genres_by_occupation_age ratings users movie_genres, g')
           | _ \<Rightarrow> (Inl NoneTypeError, g')))"

definition find_similar_movies ::
  "(string \<Rightarrow> (string \<Rightarrow> bool) option) \<Rightarrow> string \<Rightarrow> real \<Rightarrow> int \<Rightarrow> int \<Rightarrow> filesystem \<Rightarrow> globals
     \<Rightarrow> (error + similar_result list) \<times> globals" where
  "find_similar_movies engine target_movie similarity_threshold cooccurrence_threshold top_n fs g =
     (case acquire_data (\<lambda>(ratings_df, users_df, movies_df, genres_df, movie_genres_df).
              ratings_df = None \<or> movies_df = None) fs g of
        (Inl e, g') \<Rightarrow> (Inl e, g')
      | (Inr (ratings_df, users_df, movies_df, genres_df, movie_genres_df), g') \<Rightarrow>
          (case (ratings_df, movies_df) of
             (Some ratings, Some movies) \<Rightarrow>
               (similar_movies engine target_movie similarity_threshold cooccurrence_threshold
                  top_n ratings movies, g')
           | _ \<Rightarrow> (Inl NoneTypeError, g')))"

subsection \<open>The analyses over doubles\<close>

text \<open>
  The statistics of the analyses are doubles that pandas and numpy compute: the mean and the
  sample standard deviation of a group, the rounding of a column to a number of decimals,
  and the correlation matrix. Their results differ from the exact ones in the last places,
  and a rounding to decimals can then go the other way. Here the four functions are the
  fields of a record, and each analysis is defined again for any such record; what is proved
  of these definitions holds whatever the four functions return.
\<close>

record float_ops =
  f_mean :: "int list \<Rightarrow> real"
  f_std :: "int list \<Rightarrow> real"
  f_round :: "nat \<Rightarrow> real \<Rightarrow> real"
  f_corr :: "int list \<Rightarrow> int list \<Rightarrow> npfloat"

text \<open>
  \<open>f_mean\<close> is \<^verbatim>\<open>mean\<close> of a group, \<open>f_std\<close> is \<^verbatim>\<open>std\<close> of a group of at least two values
  (of fewer values it is \<^verbatim>\<open>NaN\<close>), \<open>f_round d\<close> is \<^verbatim>\<open>.round(d)\<close>, and \<open>f_corr\<close> is the entry
  \<open>[0, 1]\<close> of the matrix of \<^verbatim>\<open>np.corrcoef\<close> before numpy clips it to \<open>[-1, 1]\<close>.

  With exact arithmetic they are the functions of the sections above.
\<close>

definition exact_ops :: float_ops where
  "exact_ops =
     \<lparr>f_mean = mean,
      f_std = (\<lambda>xs. sqrt (sample_var xs)),
      f_round = round_decimals,
      f_corr = (\<lambda>xs ys. np_divide (np_divide (Fin (cov xs ys)) (Fin (sqrt (cov xs xs))))
                          (Fin (sqrt (cov ys ys))))\<rparr>"

definition std_with :: "float_ops \<Rightarrow> int list \<Rightarrow> real option" where
  "std_with K xs = (if length xs < 2 then None else Some (f_std K xs))"

text \<open>Task 1.\<close>

definition agg_age_with :: "float_ops \<Rightarrow> int list \<Rightarrow> age_agg" where
  "agg_age_with K ages =
     \<lparr>ag_mean = f_round K 2 (f_mean K ages),
      ag_count = length ages,
      ag_std = map_option (f_round K 2) (std_with K ages),
      ag_min = Min (set ages),
      ag_max = Max (set ages)\<rparr>"

definition mean_age_by_occupation_with :: "float_ops \<Rightarrow> user_row list \<Rightarrow> occupation_result list" where
  "mean_age_by_occupation_with K users_df =
     (let occupation_age_stats =
            map (\<lambda>(occ, rows). (occ, agg_age_with K (map u_age rows))) (groupby u_occupation users_df);
          results = map occupation_record occupation_age_stats
      in sort_descending mean_age results)"

definition occupation_rows_with :: "float_ops \<Rightarrow> user_row list \<Rightarrow> occupation_result list" where
  "occupation_rows_with K users_df =
     map (\<lambda>occ. occupation_record
                  (occ, agg_age_with K (map u_age (filter (\<lambda>u. u_occupation u = occ) users_df))))
       (sort (remdups (map u_occupation users_df)))"

text \<open>Task 2.\<close>

definition agg_rating_with :: "float_ops \<Rightarrow> int list \<Rightarrow> rating_agg" where
  "agg_rating_with K rs =
     \<lparr>rg_mean = f_round K 3 (f_mean K rs),
      rg_count = length rs,
      rg_std = map_option (f_round K 3) (std_with K rs)\<rparr>"

definition movie_stats_with :: "float_ops \<Rightarrow> rating_row list \<Rightarrow> (int \<times> rating_agg) list" where
  "movie_stats_with K ratings_df =
     map (\<lambda>(mid, rows). (mid, agg_rating_with K (map r_rating rows))) (groupby r_movie_id ratings_df)"

definition top_rated_movies_with ::
  "float_ops \<Rightarrow> rating_row list \<Rightarrow> movie_row list \<Rightarrow> int \<Rightarrow> int \<Rightarrow> error + movie_result list" where
  "top_rated_movies_with K ratings_df movies_df min_ratings top_n =
     (let qualified_movies =
            filter (\<lambda>(mid, stats). min_ratings \<le> int (rg_count stats)) (movie_stats_with K ratings_df);
          top_movies = head top_n (sort_descending (\<lambda>(mid, stats). rg_mean stats) qualified_movies)
      in collect (movie_record movies_df) top_movies)"

definition qualified_movies :: "float_ops \<Rightarrow> rating_row list \<Rightarrow> int \<Rightarrow> (int \<times> rating_agg) list" where
  "qualified_movies K ratings_df min_ratings =
     filter (\<lambda>(mid, stats). min_ratings \<le> int (rg_count stats)) (movie_stats_with K ratings_df)"

definition top_movies_with ::
  "float_ops \<Rightarrow> rating_row list \<Rightarrow> int \<Rightarrow> int \<Rightarrow> (int \<times> rating_agg) list" where
  "top_movies_with K ratings_df min_ratings top_n =
     head top_n (sort_descending (\<lambda>(mid, stats). rg_mean stats)
       (qualified_movies K ratings_df min_ratings))"

text \<open>The movies with at least \<^verbatim>\<open>min_ratings\<close> ratings, in ascending order.\<close>

definition qualified_ids :: "rating_row list \<Rightarrow> int \<Rightarrow> int list" where
  "qualified_ids ratings_df min_ratings =
     filter (\<lambda>mid. min_ratings \<le> int (length (ratings_of mid ratings_df)))
       (sort (remdups (map r_movie_id ratings_df)))"

text \<open>
  Task 4. The program itself adds 1 to the correlation and halves the sum. \<open>fl\<close> is the
  rounding of a real to the nearest double, a tie going to the even significand; the
  exponent is not bounded, the sums here being far from the ends of the range. The sum is
  rounded; halving a double is exact.
\<close>

definition fl :: "real \<Rightarrow> real" where
  "fl x =
     (if x = 0 then 0
      else let ulp = 2 powr (of_int \<lfloor>log 2 \<bar>x\<bar>\<rfloor> - 52)
           in of_int (rint (x / ulp)) * ulp)"

definition corrcoef_with :: "float_ops \<Rightarrow> int list \<Rightarrow> int list \<Rightarrow> real option" where
  "corrcoef_with K xs ys = np_clip (f_corr K xs ys)"

definition pair_correlation_with :: "float_ops \<Rightarrow> (rating_row \<times> rating_row) list \<Rightarrow> real" where
  "pair_correlation_with K merged =
     (case corrcoef_with K (target_vals merged) (movie_vals merged) of None \<Rightarrow> 0 | Some c \<Rightarrow> c)"

definition pair_similarity_with :: "float_ops \<Rightarrow> (rating_row \<times> rating_row) list \<Rightarrow> real" where
  "pair_similarity_with K merged = fl (pair_correlation_with K merged + 1) / 2"

definition candidate_similarity_with ::
  "float_ops \<Rightarrow> rating_row list \<Rightarrow> int set \<Rightarrow> real \<Rightarrow> int \<Rightarrow> rating_row list \<Rightarrow> similarity_data option" where
  "candidate_similarity_with K target_ratings target_users similarity_threshold
       cooccurrence_threshold movie_ratings =
     (let common = common_users target_users movie_ratings;
          cooccurrence_count = card common
      in if int cooccurrence_count < cooccurrence_threshold then None
         else
           let merged = merged_ratings target_ratings movie_ratings common
           in if length merged < 2 then None
              else
                let correlation = pair_correlation_with K merged;
                    similarity_score = fl (correlation + 1) / 2
                in if similarity_threshold \<le> similarity_score
                   then Some \<lparr>sd_similarity_score = similarity_score,
                              sd_cooccurrence_count = cooccurrence_count,
                              sd_correlation = correlation\<rparr>
                   else None)"

definition movie_similarities_with ::
  "float_ops \<Rightarrow> int \<Rightarrow> real \<Rightarrow> int \<Rightarrow> rating_row list \<Rightarrow> (int \<times> similarity_data) list" where
  "movie_similarities_with K target_movie_id similarity_threshold cooccurrence_threshold ratings_df =
     (let target_ratings = target_movie_ratings target_movie_id ratings_df;
          target_users = set (map r_user_id target_ratings)
      in List.map_filter
           (\<lambda>(mid, movie_ratings).
              map_option (Pair mid)
                (candidate_similarity_with K target_ratings target_users similarity_threshold
                   cooccurrence_threshold movie_ratings))
           (groupby r_movie_id (corated_movies target_movie_id ratings_df)))"

definition sorted_movies_with ::
  "float_ops \<Rightarrow> int \<Rightarrow> real \<Rightarrow> int \<Rightarrow> int \<Rightarrow> rating_row list \<Rightarrow> (int \<times> similarity_data) list" where
  "sorted_movies_with K tid thr cthr top_n ratings_df =
     head top_n (sort_descending (\<lambda>(mid, d). sd_similarity_score d)
       (movie_similarities_with K tid thr cthr ratings_df))"

definition similar_to_with ::
  "float_ops \<Rightarrow> int \<Rightarrow> real \<Rightarrow> int \<Rightarrow> int \<Rightarrow> rating_row list \<Rightarrow> movie_row list
     \<Rightarrow> error + similar_result list" where
  "similar_to_with K target_movie_id similarity_threshold cooccurrence_threshold top_n
       ratings_df movies_df =
     (let sorted_movies =
            head top_n (sort_descending (\<lambda>(mid, d). sd_similarity_score d)
              (movie_similarities_with K target_movie_id similarity_threshold
                 cooccurrence_threshold ratings_df))
      in collect (similar_record movies_df) sorted_movies)"

definition similar_movies_with ::
  "float_ops \<Rightarrow> (string \<Rightarrow> (string \<Rightarrow> bool) option) \<Rightarrow> string \<Rightarrow> real \<Rightarrow> int \<Rightarrow> int
     \<Rightarrow> rating_row list \<Rightarrow> movie_row list \<Rightarrow> error + similar_result list" where
  "similar_movies_with K engine target_movie similarity_threshold cooccurrence_threshold top_n
       ratings_df movies_df =
     (case find_target engine target_movie movies_df of
        Inl e \<Rightarrow> Inl e
      | Inr target \<Rightarrow>
          similar_to_with K (m_movie_id target) similarity_threshold cooccurrence_threshold top_n
            ratings_df movies_df)"

text \<open>The co-rated movies that the loop keeps, in ascending order.\<close>

definition kept_ids :: "float_ops \<Rightarrow> int \<Rightarrow> real \<Rightarrow> int \<Rightarrow> rating_row list \<Rightarrow> int list" where
  "kept_ids K tid thr cthr ratings_df =
     filter
       (\<lambda>mid. candidate_similarity_with K (target_movie_ratings tid ratings_df)
                (set (map r_user_id (target_movie_ratings tid ratings_df))) thr cthr
                (filter (\<lambda>r. r_movie_id r = mid) (corated_movies tid ratings_df)) \<noteq> None)
       (sort (remdups (map r_movie_id (corated_movies tid ratings_df))))"

text \<open>
  The mean and the rounding in doubles, for a column whose sum is an exact double (below
  \<open>2 ^ 53\<close>): pandas divides the sum by the count, and numpy rounds to \<open>d\<close> decimals by
  multiplying by \<open>10 ^ d\<close>, rounding to an integer and dividing by \<open>10 ^ d\<close>.
\<close>

definition double_mean :: "int list \<Rightarrow> real" where
  "double_mean xs = fl (real_of_int (sum_list xs) / real (length xs))"

definition np_round :: "nat \<Rightarrow> real \<Rightarrow> real" where
  "np_round d x = fl (of_int (rint (fl (x * 10 ^ d))) / 10 ^ d)"

text \<open>The functions of the exact reading with the mean and the rounding replaced by those in
  doubles. The examples that use it evaluate the mean only.\<close>

definition double_ops :: float_ops where
  "double_ops = exact_ops\<lparr>f_mean := double_mean, f_round := np_round\<rparr>"

subsection \<open>Example tables\<close>

text \<open>The Users table of the demographic scenario.\<close>

definition "u1 = \<lparr>u_user_id = 1, u_age = 25, u_gender = ''M'', u_occupation = ''engineer'', u_zip_code = ''1''\<rparr>"

definition "u2 = \<lparr>u_user_id = 2, u_age = 35, u_gender = ''F'', u_occupation = ''engineer'', u_zip_code = ''1''\<rparr>"

definition "u3 = \<lparr>u_user_id = 3, u_age = 40, u_gender = ''M'', u_occupation = ''doctor'', u_zip_code = ''1''\<rparr>"

text \<open>Ratings and movies for the rating aggregation: movie 7 has two ratings of 4 and no
  release date, movie 8 three ratings of 5, movie 9 a single rating.\<close>

definition mk_rating :: "int \<Rightarrow> int \<Rightarrow> int \<Rightarrow> rating_row" where
  "mk_rating u m r = \<lparr>r_user_id = u, r_movie_id = m, r_rating = r, r_timestamp = 0\<rparr>"

definition mk_movie :: "int \<Rightarrow> string \<Rightarrow> string option \<Rightarrow> movie_row" where
  "mk_movie i t d =
     \<lparr>m_movie_id = i, m_title = Some t, m_release_date = d,
      m_genre_flags = [1, 0, 0, 0, 0, 0, 0, 0, 0, 0, 0, 0, 0, 0, 0, 0, 0, 0, 0]\<rparr>"

definition ex_ratings :: "rating_row list" where
  "ex_ratings = [mk_rating 1 7 4, mk_rating 1 9 5, mk_rating 2 8 5, mk_rating 2 7 4,
                 mk_rating 3 8 5, mk_rating 1 8 5]"

definition ex_movies :: "movie_row list" where
  "ex_movies = [mk_movie 7 ''Seven'' None, mk_movie 8 ''Eight'' (Some ''01-Jan-1995''),
                mk_movie 9 ''Nine'' None]"

definition ex_top_rated :: "movie_result list" where
  "ex_top_rated =
     [\<lparr>movie_id = 8, title = Some ''Eight'', avg_rating = 5, rating_count = 3, rating_std = 0,
       release_date = ''01-Jan-1995''\<rparr>,
      \<lparr>movie_id = 7, title = Some ''Seven'', avg_rating = 4, rating_count = 2, rating_std = 0,
       release_date = ''Unknown''\<rparr>]"

text \<open>Ratings and genres for the genre ranker: user 1 rates movie 8 (three genres) and
  movie 7 (Drama), user 3 rates movie 7.\<close>

definition mk_movie_genre :: "int \<Rightarrow> string \<Rightarrow> movie_genre_row" where
  "mk_movie_genre i g = \<lparr>mg_movie_id = i, mg_title = None, mg_genre = g\<rparr>"

definition ex_genre_ratings :: "rating_row list" where
  "ex_genre_ratings = [mk_rating 1 8 5, mk_rating 1 7 4, mk_rating 3 7 3]"

definition ex_movie_genres :: "movie_genre_row list" where
  "ex_movie_genres = [mk_movie_genre 7 ''Drama'', mk_movie_genre 8 ''Action'',
                      mk_movie_genre 8 ''Comedy'', mk_movie_genre 8 ''War'']"

definition ex_segments :: "segment_result list" where
  "ex_segments =
     [\<lparr>sg_occupation = ''doctor'', sg_age_group = ''35-45'',
       top_genres = [\<lparr>genre = (''doctor'', ''35-45'', ''Drama''), ge_avg_rating = 3, ge_rating_count = 1\<rparr>],
       total_users = 1\<rparr>,
      \<lparr>sg_occupation = ''engineer'', sg_age_group = ''25-35'',
       top_genres = [\<lparr>genre = (''engineer'', ''25-35'', ''Action''), ge_avg_rating = 5, ge_rating_count = 1\<rparr>,
                     \<lparr>genre = (''engineer'', ''25-35'', ''Comedy''), ge_avg_rating = 5, ge_rating_count = 1\<rparr>,
                     \<lparr>genre = (''engineer'', ''25-35'', ''War''), ge_avg_rating = 5, ge_rating_count = 1\<rparr>],
       total_users = 1\<rparr>]"

text \<open>Movies and ratings for the similarity search: the target is movie 1, rated by users
  1, 2 and 3.\<close>

definition ex_sim_movies :: "movie_row list" where
  "ex_sim_movies =
     [mk_movie 2 ''Heat (1995)'' (Some ''01-Jan-1995''),
      mk_movie 1 ''Usual Suspects, The (1995)'' (Some ''14-Aug-1995''),
      mk_movie 3 ''Seven (1995)'' None,
      mk_movie 4 ''The Unusual Suspects'' None]"

definition ex_sim_ratings :: "rating_row list" where
  "ex_sim_ratings =
     [mk_rating 1 1 5, mk_rating 2 1 5, mk_rating 3 1 4,
      mk_rating 1 2 3, mk_rating 2 2 4,
      mk_rating 1 3 5, mk_rating 2 3 5, mk_rating 3 3 4,
      mk_rating 3 4 2,
      mk_rating 4 2 1]"

definition ex_similar :: "similar_result list" where
  "ex_similar =
     [\<lparr>sm_movie_id = 3, sm_title = Some ''Seven (1995)'', similarity_score = 1,
       cooccurrence_count = 3, correlation = 1, sm_release_date = ''Unknown''\<rparr>,
      \<lparr>sm_movie_id = 2, sm_title = Some ''Heat (1995)'', similarity_score = 1 / 2,
       cooccurrence_count = 2, correlation = 0, sm_release_date = ''01-Jan-1995''\<rparr>]"

definition ex_target_movies :: "movie_row list" where
  "ex_target_movies =
     [mk_movie 4 ''The Unusual Suspects'' None,
      mk_movie 1 ''Usual Suspects, The (1995)'' (Some ''14-Aug-1995''),
      mk_movie 5 ''Usual Suspects, The (1995): Special Edition'' None]"

definition ex_merged :: "(rating_row \<times> rating_row) list" where
  "ex_merged = [(mk_rating 1 1 5, mk_rating 1 2 3), (mk_rating 2 1 5, mk_rating 2 2 4)]"

text \<open>A dataset directory with all files, its state after loading, and an absent one.\<close>

definition ex_genres :: "genre_row list" where
  "ex_genres = [\<lparr>g_genre = ''unknown'', g_genre_id = 0\<rparr>]"

definition ex_fs :: filesystem where
  "ex_fs = \<lparr>fs_data_dir = True, fs_ratings = Some ex_ratings, fs_users = Some [u1, u2],
            fs_movies = Some ex_movies, fs_genres = Some ex_genres,
            fs_occupations = Some [''doctor'', ''engineer'']\<rparr>"

definition ex_loaded_genres :: "movie_genre_row list" where
  "ex_loaded_genres =
     [\<lparr>mg_movie_id = 7, mg_title = Some ''Seven'', mg_genre = ''Unknown''\<rparr>,
      \<lparr>mg_movie_id = 8, mg_title = Some ''Eight'', mg_genre = ''Unknown''\<rparr>,
      \<lparr>mg_movie_id = 9, mg_title = Some ''Nine'', mg_genre = ''Unknown''\<rparr>]"

definition ex_loaded :: globals where
  "ex_loaded = \<lparr>RATINGS_DF = Some ex_ratings, USERS_DF = Some [u1, u2],
                MOVIES_DF = Some ex_movies, GENRES_DF = Some ex_genres,
                OCCUPATIONS_DF = Some [''doctor'', ''engineer''],
                MOVIE_GENRES_DF = Some ex_loaded_genres\<rparr>"

definition ex_no_data :: filesystem where
  "ex_no_data = \<lparr>fs_data_dir = False, fs_ratings = None, fs_users = None, fs_movies = None,
                 fs_genres = None, fs_occupations = None\<rparr>"

text \<open>An artist of the mean age of the two engineers.\<close>

definition "u4 = \<lparr>u_user_id = 4, u_age = 30, u_gender = ''F'', u_occupation = ''artist'', u_zip_code = ''1''\<rparr>"

definition mk_user :: "string \<Rightarrow> int \<Rightarrow> int \<Rightarrow> user_row" where
  "mk_user occ age i =
     \<lparr>u_user_id = i, u_age = age, u_gender = ''F'', u_occupation = occ, u_zip_code = ''1''\<rparr>"


text \<open>Forty students, thirty-nine aged 18 and one aged 29: the mean age is \<open>731 / 40\<close>, that
  is 18.275.\<close>

text \<open>Ratings for the similarity search in which every candidate has a constant rating
  vector: over the users 1 and 2, who rated movie 2, the target movie 1 has the ratings 5
  and 5; movie 3 has the rating 4 from each of the users 1, 2 and 3; movie 4 has a single
  user in common with the target.\<close>

definition ex_flat_ratings :: "rating_row list" where
  "ex_flat_ratings =
     [mk_rating 1 1 5, mk_rating 2 1 5, mk_rating 3 1 4,
      mk_rating 1 2 3, mk_rating 2 2 4,
      mk_rating 1 3 4, mk_rating 2 3 4, mk_rating 3 3 4,
      mk_rating 3 4 2,
      mk_rating 4 2 1]"

definition ex_flat_similar :: "similar_result list" where
  "ex_flat_similar =
     [\<lparr>sm_movie_id = 2, sm_title = Some ''Heat (1995)'', similarity_score = 1 / 2,
       cooccurrence_count = 2, correlation = 0, sm_release_date = ''01-Jan-1995''\<rparr>,
      \<lparr>sm_movie_id = 3, sm_title = Some ''Seven (1995)'', similarity_score = 1 / 2,
       cooccurrence_count = 3, correlation = 0, sm_release_date = ''Unknown''\<rparr>]"

definition ex_students :: "user_row list" where
  "ex_students =
     map (mk_user ''student'' 18)
       [1, 2, 3, 4, 5, 6, 7, 8, 9, 10, 11, 12, 13, 14, 15, 16, 17, 18, 19, 20,
        21, 22, 23, 24, 25, 26, 27, 28, 29, 30, 31, 32, 33, 34, 35, 36, 37, 38, 39] @
     [mk_user ''student'' 29 40]"

section \<open>Properties\<close>

subsection \<open>Grouping, sorting and slicing\<close>

lemma groupby_keys: "map fst (groupby key rows) = sort (remdups (map key rows))"
  by (simp add: groupby_def comp_def)

lemma groupby_keys_strict: "sorted_wrt (<) (map fst (groupby key rows))"
  by (simp add: groupby_keys strict_sorted_iff)

lemma groupby_keys_distinct: "distinct (map fst (groupby key rows))"
  by (simp add: groupby_keys)

lemma groupby_keys_set: "fst ` set (groupby key rows) = key ` set rows"
proof -
  have "set (map fst (groupby key rows)) = key ` set rows"
    by (simp only: groupby_keys) simp
  then show ?thesis by simp
qed

lemma groupby_member:
  "(k, g) \<in> set (groupby key rows) \<longleftrightarrow> k \<in> key ` set rows \<and> g = filter (\<lambda>r. key r = k) rows"
  by (auto simp: groupby_def)

lemma filter_eq_distinct: "distinct xs \<Longrightarrow> x \<in> set xs \<Longrightarrow> filter (\<lambda>k. k = x) xs = [x]"
  by (induction xs) (auto simp: filter_empty_conv)




lemma sort_descending_sorted: "sorted_wrt (\<lambda>a b. k b \<le> k a) (sort_descending k xs)"
proof -
  have "sorted (map k (sort_key k (rev xs)))" by simp
  then have "sorted_wrt (\<lambda>a b. k a \<le> k b) (sort_key k (rev xs))"
    by (simp add: sorted_map)
  then show ?thesis
    unfolding sort_descending_def by (simp add: sorted_wrt_rev)
qed

lemma set_sort_descending [simp]: "set (sort_descending k xs) = set xs"
  by (simp add: sort_descending_def)

lemma mset_sort_descending [simp]: "mset (sort_descending k xs) = mset xs"
  by (simp add: sort_descending_def)

lemma length_sort_descending [simp]: "length (sort_descending k xs) = length xs"
  by (simp add: sort_descending_def)

lemma filter_sort_descending: "filter P (sort_descending k xs) = sort_descending k (filter P xs)"
  by (simp add: sort_descending_def filter_sort rev_filter [symmetric])

lemma distinct_map_sort_descending:
  "distinct (map f (sort_descending k xs)) = distinct (map f xs)"
proof -
  have "mset (map f (sort_descending k xs)) = mset (map f xs)" by simp
  then show ?thesis by (rule mset_eq_imp_distinct_iff)
qed

lemma set_head: "set (head n xs) \<subseteq> set xs"
  by (auto simp: head_def dest: in_set_takeD)

lemma length_head: "0 \<le> n \<Longrightarrow> int (length (head n xs)) \<le> n"
  by (simp add: head_def)

lemma sorted_wrt_head: "sorted_wrt R xs \<Longrightarrow> sorted_wrt R (head n xs)"
  by (simp add: head_def sorted_wrt_take)

lemma distinct_map_head: "distinct (map f xs) \<Longrightarrow> distinct (map f (head n xs))"
  by (simp add: head_def take_map [symmetric])

subsection \<open>Task 1\<close>

lemma occupation_record_occupation [simp]: "occupation (occupation_record (occ, st)) = occ"
  by (simp add: occupation_record_def)

lemma mean_age_by_occupation_rows:
  "mean_age_by_occupation users_df = sort_descending mean_age (occupation_rows users_df)"
  by (simp add: mean_age_by_occupation_def occupation_rows_def groupby_def comp_def)

lemma occupation_rows_keys:
  "map occupation (occupation_rows users_df) = sort (remdups (map u_occupation users_df))"
  by (simp add: occupation_rows_def comp_def)

lemma demographic_distinct: "distinct (map occupation (mean_age_by_occupation users_df))"
  unfolding mean_age_by_occupation_rows distinct_map_sort_descending occupation_rows_keys
  by simp

lemma filter_map_key:
  "filter (\<lambda>r. f r = x) (map g ks) = map g (filter (\<lambda>k. f (g k) = x) ks)"
  by (induction ks) auto

lemma floor_sqrt_bounds:
  fixes x :: real
  assumes "0 \<le> x" "(of_int n)\<^sup>2 \<le> x" "x < (of_int n + 1 / 2)\<^sup>2" "0 \<le> n"
  shows "rint (sqrt x) = n"
proof -
  have lo: "of_int n \<le> sqrt x" using assms by (simp add: real_le_rsqrt)
  have hi: "sqrt x < of_int n + 1 / 2" using assms by (intro real_less_lsqrt) auto
  have "\<lfloor>sqrt x\<rfloor> = n" using lo hi by (intro floor_unique) auto
  then show ?thesis using lo hi by (simp add: rint_def Let_def)
qed

lemma round_sqrt_50: "round_decimals 2 (sqrt 50) = 707 / 100"
proof -
  have "sqrt 10000 = (100::real)"
    by (rule real_sqrt_unique) simp_all
  then have "sqrt 50 * 10 ^ 2 = sqrt (50 * 10000)"
    by (simp only: real_sqrt_mult) simp
  then have "sqrt 50 * 10 ^ 2 = sqrt 500000"
    by simp
  moreover have "rint (sqrt 500000) = 707"
    by (rule floor_sqrt_bounds) (simp_all add: power2_eq_square)
  ultimately show ?thesis by (simp add: round_decimals_def)
qed

lemma demographic_example: "mean_age_by_occupation [u1,u2] =
   [\<lparr>occupation = ''engineer'', mean_age = 30, user_count = 2, std_dev = 707/100, min_age = 25, max_age = 35\<rparr>]"
  by (simp add: mean_age_by_occupation_def groupby_def u1_def u2_def u3_def agg_age_def occupation_record_def mean_def std_def sample_var_def sort_descending_def round_sqrt_50)
     (simp add: round_decimals_def rint_def)

subsection \<open>Task 2\<close>

lemma collect_map:
  "collect f xs = Inr ys \<Longrightarrow> (\<And>x y. x \<in> set xs \<Longrightarrow> f x = Inr y \<Longrightarrow> h y = g x)
     \<Longrightarrow> map h ys = map g xs"
proof (induction xs arbitrary: ys)
  case Nil
  then show ?case by simp
next
  case (Cons x xs)
  then show ?case by (auto split: sum.splits)
qed

lemma collect_length: "collect f xs = Inr ys \<Longrightarrow> length ys = length xs"
  using collect_map [of f xs ys "\<lambda>_. ()" "\<lambda>_. ()"] by (metis length_map)

lemma collect_mem:
  "collect f xs = Inr ys \<Longrightarrow> y \<in> set ys \<Longrightarrow> \<exists>x\<in>set xs. f x = Inr y"
  by (induction xs arbitrary: ys) (auto split: sum.splits)

lemma collect_total:
  "(\<And>x. x \<in> set xs \<Longrightarrow> \<exists>y. f x = Inr y) \<Longrightarrow> \<exists>ys. collect f xs = Inr ys"
  by (induction xs) (fastforce split: sum.splits)+

lemma movie_stats_keys: "map fst (movie_stats ratings_df) = sort (remdups (map r_movie_id ratings_df))"
  by (simp add: movie_stats_def groupby_def comp_def)

lemma top_rated_movies_collect:
  "top_rated_movies ratings_df movies_df min_ratings top_n =
     collect (movie_record movies_df) (top_movies ratings_df min_ratings top_n)"
  by (simp add: top_rated_movies_def top_movies_def)

lemma top_movies_distinct: "distinct (map fst (top_movies ratings_df min_ratings top_n))"
  unfolding top_movies_def
  by (intro distinct_map_head)
     (simp add: distinct_map_sort_descending distinct_map_filter movie_stats_keys)

lemma movie_record_fields:
  assumes "movie_record movies_df (mid, st) = Inr r"
  shows "movie_id r = mid" "avg_rating r = rg_mean st" "rating_count r = int (rg_count st)"
    "\<exists>m ms. filter (\<lambda>m. m_movie_id m = mid) movies_df = m # ms \<and> title r = m_title m \<and>
       release_date r = release_date_or_unknown (m_release_date m)"
  using assms by (auto simp: movie_record_def iloc0_def split: list.splits)

lemma top_rated_movies_ids:
  assumes "top_rated_movies ratings_df movies_df min_ratings top_n = Inr results"
  shows "map movie_id results = map fst (top_movies ratings_df min_ratings top_n)"
  using assms unfolding top_rated_movies_collect
  by (rule collect_map) (auto dest: movie_record_fields)

lemma top_rated_movies_distinct:
  "top_rated_movies ratings_df movies_df min_ratings top_n = Inr results \<Longrightarrow>
     distinct (map movie_id results)"
  by (simp add: top_rated_movies_ids top_movies_distinct)

lemma round_decimals_of_int [simp]: "round_decimals d (of_int n) = of_int n"
proof -
  have "(of_int n :: real) * 10 ^ d = of_int (n * 10 ^ d)" by simp
  then have "rint (of_int n * 10 ^ d) = n * 10 ^ d"
    unfolding rint_def Let_def by (simp only: floor_of_int) simp
  then show ?thesis by (simp add: round_decimals_def)
qed

lemma top_rated_example: "top_rated_movies ex_ratings ex_movies 2 2 = Inr ex_top_rated"
  by (simp add: top_rated_movies_def movie_stats_def groupby_def ex_ratings_def mk_rating_def
      agg_rating_def mean_def std_def sample_var_def sort_descending_def head_def
      movie_record_def iloc0_def ex_movies_def mk_movie_def release_date_or_unknown_def
      ex_top_rated_def round_decimals_of_int [of _ 5, simplified] round_decimals_of_int [of _ 4, simplified]
      round_decimals_of_int [of _ 0, simplified])

subsection \<open>Task 3\<close>

lemma top_genres_rows:
  "top_genres_by_occupation_age ratings_df users_df movie_genres_df = Inr results \<Longrightarrow>
     results = sort_key segment_key (segment_rows ratings_df users_df movie_genres_df)"
  by (auto simp: top_genres_by_occupation_age_def segment_rows_def segment_key_def [abs_def]
      split: if_splits)

lemma segment_key_record [simp]: "segment_key (segment_record uwag (k, g)) = k"
  by (cases k) (simp add: segment_key_def segment_record_def)

lemma segment_rows_keys:
  "distinct (map segment_key (segment_rows ratings_df users_df movie_genres_df))"
proof -
  have "map segment_key (segment_rows ratings_df users_df movie_genres_df) =
        map fst (groupby (\<lambda>((occ, age_group, g), stats). (occ, age_group))
          (genre_stats ratings_df users_df movie_genres_df))"
    by (simp add: segment_rows_def comp_def case_prod_unfold groupby_def)
  then show ?thesis by (simp add: groupby_keys_distinct)
qed


lemma segment_record_props:
  fixes seg :: "(string \<times> string) \<times> (genre_key \<times> genre_agg) list"
  assumes "s = segment_record (users_with_age_group users_df) seg"
    and "\<forall>x\<in>set (snd seg). fst (fst x) = fst (fst seg) \<and> fst (snd (fst x)) = snd (fst seg)"
  shows "length (top_genres s) \<le> 3"
    and "sorted_wrt (\<lambda>a b. ge_avg_rating b \<le> ge_avg_rating a) (top_genres s)"
    and "total_users s = int (length (filter (\<lambda>u. u_occupation u = sg_occupation s \<and>
           get_age_group (u_age u) = sg_age_group s) users_df))"
    and "\<forall>e\<in>set (top_genres s). fst (genre e) = sg_occupation s \<and> fst (snd (genre e)) = sg_age_group s"
proof -
  obtain occ ag gd where seg: "seg = ((occ, ag), gd)" by (metis surj_pair)
  let ?top = "head 3 (sort_descending (\<lambda>(label, stats). gg_mean stats) gd)"
  have tg: "top_genres s = map genre_record ?top"
    using assms by (simp add: seg segment_record_def)
  show "length (top_genres s) \<le> 3"
    using length_head [of 3 "sort_descending (\<lambda>(label, stats). gg_mean stats) gd"] by (simp add: tg)
  have "sorted_wrt (\<lambda>a b. gg_mean (snd b) \<le> gg_mean (snd a)) ?top"
    using sort_descending_sorted [of "\<lambda>(label, stats). gg_mean stats" gd]
    by (intro sorted_wrt_head) (simp add: case_prod_unfold)
  then show "sorted_wrt (\<lambda>a b. ge_avg_rating b \<le> ge_avg_rating a) (top_genres s)"
    by (simp add: tg sorted_wrt_map genre_record_def case_prod_unfold)
  show "total_users s = int (length (filter (\<lambda>u. u_occupation u = sg_occupation s \<and>
           get_age_group (u_age u) = sg_age_group s) users_df))"
    using assms by (simp add: seg segment_record_def users_with_age_group_def filter_map comp_def)
  have so: "sg_occupation s = occ" "sg_age_group s = ag"
    using assms by (simp_all add: seg segment_record_def)
  have "set ?top \<subseteq> set gd" using set_head [of 3] by fastforce
  then show "\<forall>e\<in>set (top_genres s). fst (genre e) = sg_occupation s \<and> fst (snd (genre e)) = sg_age_group s"
    using assms(2) so by (fastforce simp: tg seg genre_record_def)
qed

lemma segment_rows_member:
  assumes "s \<in> set (segment_rows ratings_df users_df movie_genres_df)"
  shows "\<exists>seg. s = segment_record (users_with_age_group users_df) seg \<and>
     (\<forall>x\<in>set (snd seg). fst (fst x) = fst (fst seg) \<and> fst (snd (fst x)) = snd (fst seg))"
proof -
  let ?key = "\<lambda>x :: genre_key \<times> genre_agg. (fst (fst x), fst (snd (fst x)))"
  let ?gs = "genre_stats ratings_df users_df movie_genres_df"
  obtain k where s: "s = segment_record (users_with_age_group users_df) (k, filter (\<lambda>r. ?key r = k) ?gs)"
    using assms unfolding segment_rows_def groupby_def by (auto simp: case_prod_unfold)
  show ?thesis
  proof (intro exI conjI)
    show "s = segment_record (users_with_age_group users_df) (k, filter (\<lambda>r. ?key r = k) ?gs)"
      by (rule s)
    show "\<forall>x\<in>set (snd (k, filter (\<lambda>r. ?key r = k) ?gs)).
            fst (fst x) = fst (fst (k, filter (\<lambda>r. ?key r = k) ?gs)) \<and>
            fst (snd (fst x)) = snd (fst (k, filter (\<lambda>r. ?key r = k) ?gs))"
      by auto
  qed
qed


lemma ex_genre_stats:
  "genre_stats ex_genre_ratings [u1, u2, u3] ex_movie_genres =
    [((''doctor'', ''35-45'', ''Drama''), \<lparr>gg_mean = 3, gg_count = 1\<rparr>),
     ((''engineer'', ''25-35'', ''Action''), \<lparr>gg_mean = 5, gg_count = 1\<rparr>),
     ((''engineer'', ''25-35'', ''Comedy''), \<lparr>gg_mean = 5, gg_count = 1\<rparr>),
     ((''engineer'', ''25-35'', ''Drama''), \<lparr>gg_mean = 4, gg_count = 1\<rparr>),
     ((''engineer'', ''25-35'', ''War''), \<lparr>gg_mean = 5, gg_count = 1\<rparr>)]"
  by (simp add: genre_stats_def merge_on_def users_with_age_group_def ex_genre_ratings_def
      mk_rating_def u1_def u2_def u3_def ex_movie_genres_def mk_movie_genre_def get_age_group_def
      groupby_def agg_genre_def mean_def
      round_decimals_of_int [of _ 5, simplified] round_decimals_of_int [of _ 4, simplified]
      round_decimals_of_int [of _ 3, simplified])

lemma genre_ranking_example:
  "top_genres_by_occupation_age ex_genre_ratings [u1, u2, u3] ex_movie_genres = Inr ex_segments"
proof -
  have "ex_movie_genres \<noteq> []" by (simp add: ex_movie_genres_def)
  then show ?thesis
    unfolding top_genres_by_occupation_age_def ex_genre_stats
    by (simp add: groupby_def segment_record_def sort_descending_def head_def genre_record_def
        users_with_age_group_def get_age_group_def u1_def u2_def u3_def ex_segments_def)
qed

subsection \<open>Task 4\<close>

lemma sum_list_squares_zero:
  fixes f :: "'a \<Rightarrow> real"
  assumes "(\<Sum>x\<leftarrow>xs. (f x)\<^sup>2) = 0" and "x \<in> set xs"
  shows "f x = 0"
proof -
  have "\<forall>y\<in>set (map (\<lambda>x. (f x)\<^sup>2) xs). y = 0"
    using assms(1) by (subst (asm) sum_list_nonneg_eq_0_iff) auto
  then show ?thesis using assms(2) by auto
qed

lemma cov_self: "cov xs xs = (\<Sum>x\<leftarrow>xs. (real_of_int x - mean xs)\<^sup>2) / (real (length xs) - 1)"
proof -
  have "map (\<lambda>(x, y). (real_of_int x - mean xs) * (real_of_int y - mean xs)) (zip xs xs) =
        map (\<lambda>x. (real_of_int x - mean xs)\<^sup>2) xs"
    by (induction xs) (simp_all add: power2_eq_square zip_same_conv_map)
  then show ?thesis by (simp add: cov_def)
qed

lemma mean_singleton: "mean [x] = real_of_int x"
  by (simp add: mean_def)

lemma zero_variance_deviation:
  assumes "cov xs xs = 0" and "x \<in> set xs"
  shows "real_of_int x - mean xs = 0"
proof (cases "length xs = 1")
  case True
  then obtain y where "xs = [y]" by (cases xs) auto
  with assms(2) show ?thesis by (simp add: mean_singleton)
next
  case False
  then have "real (length xs) - 1 \<noteq> 0" by auto
  with assms(1) have "(\<Sum>x\<leftarrow>xs. (real_of_int x - mean xs)\<^sup>2) = 0"
    by (simp add: cov_self)
  then show ?thesis using assms(2) by (rule sum_list_squares_zero)
qed

lemma sum_list_zero: "(\<And>x. x \<in> set xs \<Longrightarrow> f x = (0::real)) \<Longrightarrow> (\<Sum>x\<leftarrow>xs. f x) = 0"
  by (induction xs) auto

lemma zero_variance_cov_left: "cov xs xs = 0 \<Longrightarrow> cov xs ys = 0"
proof -
  assume z: "cov xs xs = 0"
  have "(\<Sum>p\<leftarrow>zip xs ys. (real_of_int (fst p) - mean xs) * (real_of_int (snd p) - mean ys)) = 0"
  proof (rule sum_list_zero)
    fix p assume "p \<in> set (zip xs ys)"
    then have "fst p \<in> set xs" by (metis in_set_zipE prod.collapse)
    then show "(real_of_int (fst p) - mean xs) * (real_of_int (snd p) - mean ys) = 0"
      using zero_variance_deviation [OF z] by simp
  qed
  then show ?thesis by (simp add: cov_def case_prod_unfold)
qed

lemma zero_variance_cov_right: "cov ys ys = 0 \<Longrightarrow> cov xs ys = 0"
proof -
  assume z: "cov ys ys = 0"
  have "(\<Sum>p\<leftarrow>zip xs ys. (real_of_int (fst p) - mean xs) * (real_of_int (snd p) - mean ys)) = 0"
  proof (rule sum_list_zero)
    fix p assume "p \<in> set (zip xs ys)"
    then have "snd p \<in> set ys" by (metis in_set_zipE prod.collapse)
    then show "(real_of_int (fst p) - mean xs) * (real_of_int (snd p) - mean ys) = 0"
      using zero_variance_deviation [OF z] by simp
  qed
  then show ?thesis by (simp add: cov_def case_prod_unfold)
qed

lemma corrcoef_zero_variance:
  assumes "cov xs xs = 0 \<or> cov ys ys = 0"
  shows "corrcoef xs ys = None"
proof -
  have c: "cov xs ys = 0"
    using assms zero_variance_cov_left zero_variance_cov_right by blast
  show ?thesis
    using assms by (auto simp: corrcoef_def c)
qed

lemma constant_mean: "xs \<noteq> [] \<Longrightarrow> \<forall>x\<in>set xs. x = c \<Longrightarrow> mean xs = real_of_int c"
proof -
  assume a: "xs \<noteq> []" "\<forall>x\<in>set xs. x = c"
  then have "xs = replicate (length xs) c"
    by (simp add: replicate_length_same)
  then have "sum_list xs = int (length xs) * c"
    by (metis sum_list_replicate mult.commute)
  then show ?thesis using a(1) by (simp add: mean_def)
qed

lemma constant_variance: "\<forall>x\<in>set xs. x = c \<Longrightarrow> cov xs xs = 0"
proof (cases "xs = []")
  case True
  then show ?thesis by (simp add: cov_def)
next
  case False
  assume a: "\<forall>x\<in>set xs. x = c"
  have "(\<Sum>x\<leftarrow>xs. (real_of_int x - mean xs)\<^sup>2) = 0"
    by (rule sum_list_zero) (use a constant_mean [OF False a] in auto)
  then show ?thesis by (simp add: cov_self)
qed

lemma zero_variance_pair:
  assumes "cov (target_vals merged) (target_vals merged) = 0 \<or>
           cov (movie_vals merged) (movie_vals merged) = 0"
  shows "pair_correlation merged = 0" and "pair_similarity merged = 1 / 2"
  using corrcoef_zero_variance [OF assms] by (simp_all add: pair_correlation_def pair_similarity_def)

lemma constant_target_variance:
  "\<forall>p\<in>set merged. r_rating (fst p) = c \<Longrightarrow> cov (target_vals merged) (target_vals merged) = 0"
  by (intro constant_variance [of _ c]) (auto simp: target_vals_def)

lemma constant_movie_variance:
  "\<forall>p\<in>set merged. r_rating (snd p) = c \<Longrightarrow> cov (movie_vals merged) (movie_vals merged) = 0"
  by (intro constant_variance [of _ c]) (auto simp: movie_vals_def)

lemma map_filter_keys:
  "map fst (List.map_filter (\<lambda>(k, v). map_option (Pair k) (g k v)) xs) =
   map fst (filter (\<lambda>(k, v). g k v \<noteq> None) xs)"
  by (induction xs) (auto simp: List.map_filter_simps split: option.splits)

lemma map_filter_mem:
  "(k, d) \<in> set (List.map_filter (\<lambda>(k, v). map_option (Pair k) (h v)) xs) \<Longrightarrow>
     \<exists>v. (k, v) \<in> set xs \<and> h v = Some d"
  by (induction xs) (auto simp: List.map_filter_simps split: option.splits)

lemma movie_similarities_distinct:
  "distinct (map fst (movie_similarities tid thr cthr ratings_df))"
  unfolding movie_similarities_def Let_def map_filter_keys
  by (simp add: distinct_map_filter groupby_keys_distinct)

lemma similar_to_collect:
  "similar_to tid thr cthr top_n ratings_df movies_df =
     collect (similar_record movies_df) (sorted_movies tid thr cthr top_n ratings_df)"
  by (simp add: similar_to_def sorted_movies_def)

lemma sorted_movies_distinct: "distinct (map fst (sorted_movies tid thr cthr top_n ratings_df))"
  unfolding sorted_movies_def
  by (intro distinct_map_head) (simp add: distinct_map_sort_descending movie_similarities_distinct)

lemma similar_record_fields:
  assumes "similar_record movies_df (mid, d) = Inr r"
  shows "sm_movie_id r = mid" "similarity_score r = sd_similarity_score d"
    "cooccurrence_count r = int (sd_cooccurrence_count d)" "correlation r = sd_correlation d"
  using assms by (auto simp: similar_record_def iloc0_def split: list.splits)

lemma similar_to_distinct:
  assumes "similar_to tid thr cthr top_n ratings_df movies_df = Inr results"
  shows "distinct (map sm_movie_id results)"
proof -
  have "map sm_movie_id results = map fst (sorted_movies tid thr cthr top_n ratings_df)"
    using assms unfolding similar_to_collect
    by (rule collect_map) (auto dest: similar_record_fields)
  then show ?thesis by (simp add: sorted_movies_distinct)
qed

lemma similar_movies_target:
  assumes "similar_movies engine target_movie thr cthr top_n ratings_df movies_df = Inr results"
  shows "\<exists>t. find_target engine target_movie movies_df = Inr t \<and>
     similar_to (m_movie_id t) thr cthr top_n ratings_df movies_df = Inr results"
  using assms by (auto simp: similar_movies_def split: sum.splits)

lemma first_match:
  assumes "i < length xs" and "P (xs ! i)" and "\<forall>j<i. \<not> P (xs ! j)"
  shows "\<exists>ys. filter P xs = xs ! i # ys"
proof -
  have "xs = take i xs @ xs ! i # drop (Suc i) xs"
    using assms(1) by (rule id_take_nth_drop)
  then have "filter P xs = filter P (take i xs) @ filter P (xs ! i # drop (Suc i) xs)"
    by (metis filter_append)
  moreover have "filter P (take i xs) = []"
    using assms(1,3) by (auto simp: filter_empty_conv in_set_conv_nth)
  ultimately show ?thesis using assms(2) by simp
qed

lemma matches_usual [simp]:
  "contains_literal ''usual suspects'' ''Usual Suspects, The (1995)''"
  "contains_literal ''usual suspects'' ''The Unusual Suspects''"
  "\<not> contains_literal ''usual suspects'' ''Heat (1995)''"
  "\<not> contains_literal ''usual suspects'' ''Seven (1995)''"
  by (simp_all add: contains_literal_def lower_def less_eq_char_def sublist_code)

lemma matches_fallback [simp]:
  "contains_literal ''Usual Suspects'' ''Usual Suspects, The (1995)''"
  "contains_literal ''Usual Suspects'' ''The Unusual Suspects''"
  "contains_literal ''Usual Suspects'' ''Usual Suspects, The (1995): Special Edition''"
  "\<not> contains_literal ''Usual Suspects'' ''Heat (1995)''"
  "\<not> contains_literal ''Usual Suspects'' ''Seven (1995)''"
  "\<not> contains_literal ''Usual Suspects'' ''Seven''"
  "\<not> contains_literal ''Usual Suspects'' ''Eight''"
  "\<not> contains_literal ''Usual Suspects'' ''Nine''"
  "\<not> contains_literal ''usual suspects'' ''Seven''"
  "\<not> contains_literal ''usual suspects'' ''Eight''"
  "\<not> contains_literal ''usual suspects'' ''Nine''"
  by (simp_all add: contains_literal_def lower_def less_eq_char_def sublist_code)

lemma matches_target:
  "\<not> contains_literal ''Usual Suspects, The (1995)'' ''The Unusual Suspects''"
  "contains_literal ''Usual Suspects, The (1995)'' ''Usual Suspects, The (1995)''"
  "contains_literal ''Usual Suspects, The (1995)'' ''Usual Suspects, The (1995): Special Edition''"
  "\<not> contains_literal ''Usual Suspects, The 1995'' ''The Unusual Suspects''"
  "\<not> contains_literal ''Usual Suspects, The 1995'' ''Usual Suspects, The (1995)''"
  "\<not> contains_literal ''Usual Suspects, The 1995'' ''Usual Suspects, The (1995): Special Edition''"
  by (simp_all add: contains_literal_def lower_def less_eq_char_def sublist_code)

lemma compile_plain [simp]:
  "compile_pattern engine ''usual suspects'' = Inr (contains_literal ''usual suspects'')"
  "compile_pattern engine ''Usual Suspects'' = Inr (contains_literal ''Usual Suspects'')"
  by (simp_all add: compile_pattern_def is_plain_def is_special_def less_char_def)

lemma compile_target:
  "compile_pattern engine ''Usual Suspects, The (1995)'' =
     Inr (contains_literal ''Usual Suspects, The 1995'')"
  by (simp add: compile_pattern_def is_plain_def is_special_def less_char_def)

lemma str_contains_target:
  "str_contains engine ''Usual Suspects, The (1995)'' ex_target_movies = Inr []"
  by (simp add: str_contains_def compile_target ex_target_movies_def mk_movie_def
      title_matches_def matches_target)

lemma str_contains_fallback:
  "str_contains engine ''Usual Suspects'' ex_target_movies = Inr ex_target_movies"
  by (simp add: str_contains_def ex_target_movies_def mk_movie_def title_matches_def)

lemma find_target_first_match:
  assumes "compile_pattern engine target_movie = Inr search"
    and "i < length movies_df" and "title_matches search (m_title (movies_df ! i))"
    and "\<forall>j<i. \<not> title_matches search (m_title (movies_df ! j))"
  shows "find_target engine target_movie movies_df = Inr (movies_df ! i)"
proof -
  have "m_title (movies_df ! i) \<noteq> None"
    using assms(3) by (auto simp: title_matches_def split: option.splits)
  then have "\<not> list_all (\<lambda>m. m_title m = None) movies_df"
    using assms(2) by (auto simp: list_all_iff)
  moreover obtain ys where
    "filter (\<lambda>m. title_matches search (m_title m)) movies_df = movies_df ! i # ys"
    using first_match [of i movies_df "\<lambda>m. title_matches search (m_title m)"] assms(2-4) by blast
  ultimately show ?thesis
    by (simp add: find_target_def str_contains_def assms(1))
qed

lemma mk_rating_sel [simp]:
  "r_user_id (mk_rating u m r) = u" "r_movie_id (mk_rating u m r) = m" "r_rating (mk_rating u m r) = r"
  by (simp_all add: mk_rating_def)

lemma corrcoef_ex_constant: "corrcoef [5, 5] [3, 4] = None"
  by (rule corrcoef_zero_variance) (simp add: constant_variance [of _ 5])

lemma corrcoef_ex_same: "corrcoef [5, 5, 4] [5, 5, 4] = Some 1"
proof -
  have c: "cov [5, 5, 4] [5, 5, 4] = 1 / 3"
    by (simp add: cov_def mean_def)
  have "(1 / 3 :: real) / sqrt (1 / 3) = sqrt (1 / 3)"
    by (rule real_div_sqrt) simp
  then have "(1 / 3 :: real) / sqrt (1 / 3) / sqrt (1 / 3) = 1"
    by (simp only:) simp
  then show ?thesis
    by (simp add: corrcoef_def c)
qed

lemma ex_corated:
  "groupby r_movie_id (corated_movies 1 ex_sim_ratings) =
     [(2, [mk_rating 1 2 3, mk_rating 2 2 4]),
      (3, [mk_rating 1 3 5, mk_rating 2 3 5, mk_rating 3 3 4]),
      (4, [mk_rating 3 4 2])]"
    "target_movie_ratings 1 ex_sim_ratings = [mk_rating 1 1 5, mk_rating 2 1 5, mk_rating 3 1 4]"
  by (simp_all add: groupby_def corated_movies_def target_movie_ratings_def ex_sim_ratings_def mk_rating_def)

lemma ex_candidates:
  "candidate_similarity [mk_rating 1 1 5, mk_rating 2 1 5, mk_rating 3 1 4] {1, 2, 3} (1 / 2) 2
     [mk_rating 1 2 3, mk_rating 2 2 4] =
   Some \<lparr>sd_similarity_score = 1 / 2, sd_cooccurrence_count = 2, sd_correlation = 0\<rparr>"
  "candidate_similarity [mk_rating 1 1 5, mk_rating 2 1 5, mk_rating 3 1 4] {1, 2, 3} (1 / 2) 2
     [mk_rating 1 3 5, mk_rating 2 3 5, mk_rating 3 3 4] =
   Some \<lparr>sd_similarity_score = 1, sd_cooccurrence_count = 3, sd_correlation = 1\<rparr>"
  "candidate_similarity [mk_rating 1 1 5, mk_rating 2 1 5, mk_rating 3 1 4] {1, 2, 3} (1 / 2) 2
     [mk_rating 3 4 2] = None"
  by (simp_all add: candidate_similarity_def common_users_def merged_ratings_def merge_on_def
      mk_rating_def pair_similarity_def pair_correlation_def target_vals_def movie_vals_def
      corrcoef_ex_constant corrcoef_ex_same)

lemma ex_movie_similarities:
  "movie_similarities 1 (1 / 2) 2 ex_sim_ratings =
     [(2, \<lparr>sd_similarity_score = 1 / 2, sd_cooccurrence_count = 2, sd_correlation = 0\<rparr>),
      (3, \<lparr>sd_similarity_score = 1, sd_cooccurrence_count = 3, sd_correlation = 1\<rparr>)]"
  by (simp add: movie_similarities_def ex_corated List.map_filter_simps ex_candidates)

lemma similarity_example:
  "similar_movies no_engine ''usual suspects'' (1 / 2) 2 10 ex_sim_ratings ex_sim_movies =
     Inr ex_similar"
proof -
  have "find_target no_engine ''usual suspects'' ex_sim_movies =
          Inr (mk_movie 1 ''Usual Suspects, The (1995)'' (Some ''14-Aug-1995''))"
    by (simp add: find_target_def str_contains_def ex_sim_movies_def mk_movie_def title_matches_def)
  moreover have "similar_to 1 (1 / 2) 2 10 ex_sim_ratings ex_sim_movies = Inr ex_similar"
    unfolding similar_to_def ex_movie_similarities
    by (simp add: sort_descending_def head_def similar_record_def iloc0_def ex_sim_movies_def
        mk_movie_def release_date_or_unknown_def ex_similar_def)
  ultimately show ?thesis
    by (simp add: similar_movies_def mk_movie_def)
qed

subsection \<open>Natural keys\<close>

lemma genre_stats_distinct: "distinct (map fst (genre_stats ratings_df users_df movie_genres_df))"
proof -
  have "map fst (genre_stats ratings_df users_df movie_genres_df) =
        map fst (groupby (\<lambda>((r, u, ag), mg). (u_occupation u, ag, mg_genre mg))
          (merge_on (\<lambda>(r, u, ag). r_movie_id r) mg_movie_id
            (merge_on r_user_id (\<lambda>(u, ag). u_user_id u) ratings_df (users_with_age_group users_df))
            movie_genres_df))"
    by (simp add: genre_stats_def Let_def comp_def case_prod_unfold)
  then show ?thesis by (simp only: groupby_keys_distinct)
qed

lemma segment_genres_distinct:
  assumes "s \<in> set (segment_rows ratings_df users_df movie_genres_df)"
  shows "distinct (map genre (top_genres s))"
proof -
  let ?key = "\<lambda>x :: genre_key \<times> genre_agg. (fst (fst x), fst (snd (fst x)))"
  let ?gs = "genre_stats ratings_df users_df movie_genres_df"
  obtain k where s: "s = segment_record (users_with_age_group users_df) (k, filter (\<lambda>r. ?key r = k) ?gs)"
    using assms unfolding segment_rows_def groupby_def by (auto simp: case_prod_unfold)
  let ?top = "head 3 (sort_descending (\<lambda>(label, stats). gg_mean stats) (filter (\<lambda>r. ?key r = k) ?gs))"
  have "distinct (map fst ?top)"
    by (intro distinct_map_head)
       (simp add: distinct_map_sort_descending distinct_map_filter genre_stats_distinct)
  moreover have "map genre (top_genres s) = map fst ?top"
    by (cases k) (simp add: s segment_record_def genre_record_def comp_def case_prod_unfold)
  ultimately show ?thesis by simp
qed

lemma distinct_concat_keyed:
  "distinct (map key ss) \<Longrightarrow> (\<And>s. s \<in> set ss \<Longrightarrow> distinct (f s)) \<Longrightarrow>
   (\<And>s x. s \<in> set ss \<Longrightarrow> x \<in> set (f s) \<Longrightarrow> tag x = key s) \<Longrightarrow>
   distinct (concat (map f ss))"
proof (induction ss)
  case Nil
  then show ?case by simp
next
  case (Cons s ss)
  have "set (f s) \<inter> (\<Union>t\<in>set ss. set (f t)) = {}"
  proof (rule ccontr)
    assume "set (f s) \<inter> (\<Union>t\<in>set ss. set (f t)) \<noteq> {}"
    then obtain x t where x: "x \<in> set (f s)" "t \<in> set ss" "x \<in> set (f t)" by blast
    then have "key s = key t" using Cons.prems(3) [of s x] Cons.prems(3) [of t x] by simp
    with Cons.prems(1) x(2) show False by auto
  qed
  moreover have "distinct (concat (map f ss))"
    using Cons by simp
  ultimately show ?case using Cons.prems(2) [of s] by simp
qed

lemma genre_keys_distinct:
  assumes "top_genres_by_occupation_age ratings_df users_df movie_genres_df = Inr results"
  shows "distinct (map (\<lambda>s. (sg_occupation s, sg_age_group s)) results)"
    and "distinct (concat (map (\<lambda>s. map (\<lambda>e. (sg_occupation s, sg_age_group s, snd (snd (genre e))))
           (top_genres s)) results))"
proof -
  let ?rows = "segment_rows ratings_df users_df movie_genres_df"
  have r: "results = sort_key segment_key ?rows" using assms by (rule top_genres_rows)
  have "mset (map segment_key results) = mset (map segment_key ?rows)" by (simp add: r)
  then have d: "distinct (map segment_key results)"
    using segment_rows_keys mset_eq_imp_distinct_iff by blast
  then show "distinct (map (\<lambda>s. (sg_occupation s, sg_age_group s)) results)"
    by (simp add: segment_key_def [abs_def])
  have pre: "fst (genre e) = sg_occupation s \<and> fst (snd (genre e)) = sg_age_group s"
    if "s \<in> set results" "e \<in> set (top_genres s)" for s e
  proof -
    have "s \<in> set ?rows" using that(1) by (simp add: r)
    then obtain seg where seg: "s = segment_record (users_with_age_group users_df) seg"
      "\<forall>x\<in>set (snd seg). fst (fst x) = fst (fst seg) \<and> fst (snd (fst x)) = snd (fst seg)"
      using segment_rows_member by blast
    show ?thesis using segment_record_props(4) [OF seg] that(2) by blast
  qed
  have eq: "map (\<lambda>e. (sg_occupation s, sg_age_group s, snd (snd (genre e)))) (top_genres s) =
            map genre (top_genres s)" if "s \<in> set results" for s
    using pre [OF that] by (auto simp: prod_eq_iff)
  show "distinct (concat (map (\<lambda>s. map (\<lambda>e. (sg_occupation s, sg_age_group s, snd (snd (genre e))))
           (top_genres s)) results))"
  proof (rule distinct_concat_keyed [where key = segment_key and tag = "\<lambda>x. (fst x, fst (snd x))"])
    show "distinct (map segment_key results)" by (rule d)
    show "distinct (map (\<lambda>e. (sg_occupation s, sg_age_group s, snd (snd (genre e)))) (top_genres s))"
      if "s \<in> set results" for s
      using segment_genres_distinct [of s ratings_df users_df movie_genres_df] that
      by (simp add: eq r)
    show "(fst x, fst (snd x)) = segment_key s"
      if "s \<in> set results" "x \<in> set (map (\<lambda>e. (sg_occupation s, sg_age_group s, snd (snd (genre e)))) (top_genres s))"
      for s x
      using that(2) by (auto simp: segment_key_def)
  qed
qed

lemma similar_movies_distinct:
  assumes "similar_movies engine target_movie thr cthr top_n ratings_df movies_df = Inr results"
  shows "distinct (map sm_movie_id results)"
  using similar_movies_target [OF assms] similar_to_distinct by blast

subsection \<open>Loading on demand\<close>

lemma genre_display_names:
  "map genre_display_name genre_columns =
     [''Unknown'', ''Action'', ''Adventure'', ''Animation'', ''Children's'', ''Comedy'',
      ''Crime'', ''Documentary'', ''Drama'', ''Fantasy'', ''Film-Noir'', ''Horror'',
      ''Musical'', ''Mystery'', ''Romance'', ''Sci-Fi'', ''Thriller'', ''War'', ''Western'']"
  by (simp add: genre_columns_def genre_display_name_def replace_char_def is_letter_def
      upper_def lower_def less_eq_char_def)

lemma download_error_again:
  "download_and_load_data fs g = (Inl e, g') \<Longrightarrow> download_and_load_data fs g' = (Inl e, g')"
  by (auto simp: download_and_load_data_def Let_def split: sum.splits option.splits if_splits)

lemma download_errors:
  "download_and_load_data fs g = (Inl e, g') \<Longrightarrow>
     e \<in> {DataDirectoryNotFound, RequiredFileNotFound, FileNotFoundError, ZeroDivisionError}"
  by (auto simp: download_and_load_data_def loader_init_def Let_def
      split: sum.splits option.splits if_splits)

lemma download_success:
  assumes "download_and_load_data fs g = (Inr u, g')"
  shows "\<exists>ratings users movies genres movie_genres.
           fs_ratings fs = Some ratings \<and> fs_users fs = Some users \<and> fs_movies fs = Some movies \<and>
           fs_genres fs = Some genres \<and> movie_genres = get_movie_genres movies genres \<and>
           RATINGS_DF g' = Some ratings \<and> USERS_DF g' = Some users \<and> MOVIES_DF g' = Some movies \<and>
           GENRES_DF g' = Some genres \<and> MOVIE_GENRES_DF g' = Some movie_genres"
  using assms
  by (auto simp: download_and_load_data_def Let_def split: sum.splits option.splits if_splits)

lemma acquire_initial_success:
  assumes "download_and_load_data fs initial_globals = (Inr u, g')"
    and "is_missing (None, None, None, None, None)"
  shows "acquire_data is_missing fs initial_globals =
           (Inr (RATINGS_DF g', USERS_DF g', MOVIES_DF g', GENRES_DF g', MOVIE_GENRES_DF g'), g')"
  using assms by (simp add: acquire_data_def get_data_def load_then_get_def initial_globals_def)

lemma acquire_initial_failure:
  assumes "download_and_load_data fs initial_globals = (Inl e, g')"
    and "is_missing (None, None, None, None, None)"
  shows "acquire_data is_missing fs initial_globals = (Inl e, g')"
proof -
  have "load_then_get fs initial_globals = (Inl e, g')"
    using assms(1) by (simp add: load_then_get_def)
  moreover have "load_then_get fs g' = (Inl e, g')"
    using download_error_again [OF assms(1)] by (simp add: load_then_get_def)
  moreover have "get_data initial_globals = Inr (None, None, None, None, None)"
    by (simp add: get_data_def initial_globals_def)
  ultimately show ?thesis
    using assms(2) by (simp add: acquire_data_def)
qed

lemma acquire_errors:
  "acquire_data is_missing fs g = (Inl e, g') \<Longrightarrow>
     e \<in> {DataDirectoryNotFound, RequiredFileNotFound, FileNotFoundError, ZeroDivisionError}"
  by (auto simp: acquire_data_def get_data_def load_then_get_def Let_def
      split: if_splits prod.splits sum.splits dest: download_errors)

lemma collect_error: "collect f xs = Inl e \<Longrightarrow> \<exists>x\<in>set xs. f x = Inl e"
  by (induction xs) (auto split: sum.splits)

lemma top_rated_movies_errors: "top_rated_movies ratings movies min_ratings top_n = Inl e \<Longrightarrow> e = IndexError"
  unfolding top_rated_movies_collect
  by (auto dest!: collect_error simp: movie_record_def iloc0_def split: list.splits)

lemma top_genres_errors: "top_genres_by_occupation_age ratings users movie_genres = Inl e \<Longrightarrow> e = KeyError"
  by (auto simp: top_genres_by_occupation_age_def Let_def split: if_splits)

lemma str_contains_errors:
  "str_contains engine pat movies = Inl e \<Longrightarrow> e = AttributeError \<or> e = ReError"
  by (auto simp: str_contains_def compile_pattern_def split: if_splits option.splits sum.splits)

lemma find_target_errors:
  "find_target engine target movies = Inl e \<Longrightarrow>
     e = AttributeError \<or> e = ReError \<or> e = MovieNotFound"
  by (auto simp: find_target_def split: sum.splits if_splits list.splits dest: str_contains_errors)

lemma similar_movies_errors:
  "similar_movies engine target thr cthr top_n ratings movies = Inl e \<Longrightarrow>
     e = AttributeError \<or> e = ReError \<or> e = MovieNotFound \<or> e = IndexError"
proof -
  assume a: "similar_movies engine target thr cthr top_n ratings movies = Inl e"
  show ?thesis
  proof (cases "find_target engine target movies")
    case (Inl e')
    with a have "e' = e" by (simp add: similar_movies_def)
    with Inl show ?thesis using find_target_errors by blast
  next
    case (Inr t)
    with a have "similar_to (m_movie_id t) thr cthr top_n ratings movies = Inl e"
      by (simp add: similar_movies_def)
    then have "e = IndexError"
      unfolding similar_to_collect
      by (auto dest!: collect_error simp: similar_record_def iloc0_def split: list.splits)
    then show ?thesis by simp
  qed
qed

lemma analyses_never_not_loaded:
  "fst (analyze_mean_age_by_occupation fs g) \<noteq> Inl DataNotLoaded"
  "fst (analyze_top_rated_movies min_ratings top_n fs g) \<noteq> Inl DataNotLoaded"
  "fst (analyze_top_genres_by_occupation_age fs g) \<noteq> Inl DataNotLoaded"
  "fst (find_similar_movies engine target thr cthr top_k fs g) \<noteq> Inl DataNotLoaded"
  by (auto simp: analyze_mean_age_by_occupation_def analyze_top_rated_movies_def
      analyze_top_genres_by_occupation_age_def find_similar_movies_def
      split: prod.splits sum.splits option.splits
      dest: acquire_errors top_rated_movies_errors top_genres_errors similar_movies_errors)

lemma analyses_initial_success:
  assumes "download_and_load_data fs initial_globals = (Inr u, g')"
    and "RATINGS_DF g' = Some ratings" "USERS_DF g' = Some users" "MOVIES_DF g' = Some movies"
    and "MOVIE_GENRES_DF g' = Some movie_genres"
  shows "analyze_mean_age_by_occupation fs initial_globals = (Inr (mean_age_by_occupation users), g')"
    "analyze_top_rated_movies min_ratings top_n fs initial_globals =
       (top_rated_movies ratings movies min_ratings top_n, g')"
    "analyze_top_genres_by_occupation_age fs initial_globals =
       (top_genres_by_occupation_age ratings users movie_genres, g')"
    "find_similar_movies engine target thr cthr top_k fs initial_globals =
       (similar_movies engine target thr cthr top_k ratings movies, g')"
  using assms(2-)
  by (simp_all add: analyze_mean_age_by_occupation_def analyze_top_rated_movies_def
      analyze_top_genres_by_occupation_age_def find_similar_movies_def
      acquire_initial_success [OF assms(1)])

lemma analyses_initial_failure:
  assumes "download_and_load_data fs initial_globals = (Inl e, g')"
  shows "analyze_mean_age_by_occupation fs initial_globals = (Inl e, g')"
    "analyze_top_rated_movies min_ratings top_n fs initial_globals = (Inl e, g')"
    "analyze_top_genres_by_occupation_age fs initial_globals = (Inl e, g')"
    "find_similar_movies engine target thr cthr top_k fs initial_globals = (Inl e, g')"
  by (simp_all add: analyze_mean_age_by_occupation_def analyze_top_rated_movies_def
      analyze_top_genres_by_occupation_age_def find_similar_movies_def
      acquire_initial_failure [OF assms])

lemma ex_get_movie_genres: "get_movie_genres ex_movies ex_genres = ex_loaded_genres"
  by (simp add: get_movie_genres_def ex_movies_def mk_movie_def genre_columns_def
      genre_display_name_def replace_char_def is_letter_def upper_def lower_def less_eq_char_def
      ex_loaded_genres_def)

lemma ex_download: "download_and_load_data ex_fs initial_globals = (Inr (), ex_loaded)"
  by (simp add: download_and_load_data_def loader_init_def ex_fs_def ex_loaded_def
      ex_get_movie_genres) (simp add: ex_movies_def)

lemma ex_no_data_download:
  "download_and_load_data ex_no_data initial_globals = (Inl DataDirectoryNotFound, initial_globals)"
  by (simp add: download_and_load_data_def loader_init_def ex_no_data_def)

subsection \<open>Doubles\<close>

lemma rint_of_int [simp]: "rint (of_int n) = n"
  by (simp add: rint_def)

lemma rint_numeral [simp]: "rint (numeral n) = numeral n"
  by (simp add: rint_def)

lemma fl_zero [simp]: "fl 0 = 0"
  by (simp add: fl_def)

lemma rint_nonneg: "0 \<le> x \<Longrightarrow> 0 \<le> rint x"
  by (auto simp: rint_def Let_def)

lemma rint_le: "x \<le> of_int n \<Longrightarrow> rint x \<le> n"
proof -
  assume a: "x \<le> of_int n"
  show ?thesis
  proof (cases "x = of_int n")
    case True
    then show ?thesis by simp
  next
    case False
    with a have "x < of_int n" by simp
    then have "\<lfloor>x\<rfloor> < n" by (simp add: floor_less_iff)
    then show ?thesis by (auto simp: rint_def Let_def)
  qed
qed

lemma floor_log2:
  fixes x :: real
  assumes "2 powr of_int e \<le> x" and "x < 2 powr (of_int e + 1)"
  shows "\<lfloor>log 2 x\<rfloor> = e"
proof -
  have p: "0 < x" using assms(1) by (smt (verit) powr_gt_zero)
  have "of_int e \<le> log 2 x" using assms(1) p by (simp add: le_log_iff)
  moreover have "log 2 x < of_int e + 1" using assms(2) p by (simp add: log_less_iff)
  ultimately show ?thesis by (intro floor_unique) auto
qed

lemma fl_eval:
  fixes x :: real
  assumes "2 ^ 52 \<le> \<bar>x\<bar> * 2 ^ k" and "\<bar>x\<bar> * 2 ^ k < 2 ^ 53"
  shows "fl x = of_int (rint (x * 2 ^ k)) / 2 ^ k"
proof -
  have nz: "x \<noteq> 0" using assms(1) by auto
  have r: "2 powr real k = (2::real) ^ k"
    by (simp add: powr_realpow)
  have "2 powr (of_int (52 - int k)) = (2::real) powr (52 - real k)"
    by simp
  also have "\<dots> = 2 powr 52 / 2 powr real k"
    by (rule powr_diff)
  finally have e: "2 powr (of_int (52 - int k)) = (2::real) ^ 52 / 2 ^ k"
    by (simp add: r)
  have "2 powr (of_int (52 - int k) + 1) = (2::real) powr (53 - real k)"
    by simp
  also have "\<dots> = 2 powr 53 / 2 powr real k"
    by (rule powr_diff)
  finally have e1: "2 powr (of_int (52 - int k) + 1) = (2::real) ^ 53 / 2 ^ k"
    by (simp add: r)
  have "\<lfloor>log 2 \<bar>x\<bar>\<rfloor> = 52 - int k"
  proof (rule floor_log2)
    show "2 powr of_int (52 - int k) \<le> \<bar>x\<bar>"
      unfolding e using assms(1) by (simp add: field_simps)
    show "\<bar>x\<bar> < 2 powr (of_int (52 - int k) + 1)"
      unfolding e1 using assms(2) by (simp add: field_simps)
  qed
  moreover have "2 powr (of_int (52 - int k) - 52) = 1 / (2::real) ^ k"
  proof -
    have "2 powr (of_int (52 - int k) - 52) = (2::real) powr (- real k)"
      by simp
    also have "\<dots> = 1 / 2 powr real k"
      by (simp add: powr_minus field_simps)
    finally show ?thesis by (simp add: r)
  qed
  ultimately show ?thesis
    using nz by (simp add: fl_def Let_def)
qed

lemma fl_one: "fl 1 = 1"
  using fl_eval [of 1 52] by simp

lemma fl_two: "fl 2 = 2"
  using fl_eval [of 2 51] by simp

lemma fl_unit_range:
  assumes "0 \<le> x" and "x \<le> 2"
  shows "0 \<le> fl x \<and> fl x \<le> 2"
proof (cases "x = 0 \<or> x = 2")
  case True
  then show ?thesis by (auto simp: fl_two)
next
  case False
  then have x: "0 < x" "x < 2" using assms by auto
  define e where "e = \<lfloor>log 2 x\<rfloor>"
  define u :: real where "u = 2 powr (of_int e - 52)"
  have u: "0 < u" by (simp add: u_def)
  have "log 2 x < 1" using x by (simp add: log_less_iff)
  then have e0: "e \<le> 0" unfolding e_def by (simp add: floor_le_iff)
  have "log 2 x < of_int e + 1" unfolding e_def by linarith
  then have "x < 2 powr (of_int e + 1)" using x by (simp add: log_less_iff)
  then have "x / u < 2 powr (of_int e + 1) / u" using u by (simp add: divide_strict_right_mono)
  also have "\<dots> = 2 powr 53" unfolding u_def by (simp flip: powr_diff)
  also have "\<dots> = of_int (2 ^ 53)" by (simp add: powr_realpow [of 2 53, simplified])
  finally have "rint (x / u) \<le> 2 ^ 53" by (intro rint_le) simp
  then have "of_int (rint (x / u)) * u \<le> of_int (2 ^ 53) * u"
    using u by (intro mult_right_mono) (simp_all add: of_int_le_iff del: of_int_power)
  also have "\<dots> = 2 powr 53 * u" by (simp add: powr_realpow [of 2 53, simplified])
  also have "\<dots> = 2 powr (of_int e + 1)"
  proof -
    have "(2::real) powr 53 * 2 powr (of_int e - 52) = 2 powr (53 + (of_int e - 52))"
      by (rule powr_add [symmetric])
    then show ?thesis unfolding u_def by (simp add: algebra_simps)
  qed
  also have "\<dots> \<le> 2 powr 1" using e0 by (intro powr_mono) auto
  finally have hi: "of_int (rint (x / u)) * u \<le> 2" by simp
  have "0 \<le> rint (x / u)" using x u by (intro rint_nonneg) simp
  then have lo: "0 \<le> of_int (rint (x / u)) * u" using u by simp
  have "fl x = of_int (rint (x / u)) * u"
    using x by (simp add: fl_def Let_def u_def e_def)
  then show ?thesis using lo hi by simp
qed


lemma fl_evalI:
  fixes x :: real
  assumes "2 ^ 52 \<le> \<bar>x\<bar> * 2 ^ k" and "\<bar>x\<bar> * 2 ^ k < 2 ^ 53" and "rint (x * 2 ^ k) = n"
  shows "fl x = of_int n / 2 ^ k"
  using fl_eval [OF assms(1,2)] assms(3) by simp

lemma np_round_eval:
  assumes "fl (x * 10 ^ d) = s" and "rint s = n"
  shows "np_round d x = fl (of_int n / 10 ^ d)"
  using assms by (simp add: np_round_def)

lemma double_mean_eval:
  assumes "sum_list xs = t" and "length xs = n" and "fl (of_int t / of_nat n) = m"
  shows "double_mean xs = m"
  using assms by (simp add: double_mean_def)

subsection \<open>Task 1 over doubles\<close>

lemma exact_ops_sel:
  "f_mean exact_ops = mean"
  "f_std exact_ops xs = sqrt (sample_var xs)"
  "f_round exact_ops = round_decimals"
  "f_corr exact_ops xs ys =
     np_divide (np_divide (Fin (cov xs ys)) (Fin (sqrt (cov xs xs)))) (Fin (sqrt (cov ys ys)))"
  unfolding exact_ops_def by simp_all



lemma mean_age_by_occupation_with_rows:
  "mean_age_by_occupation_with K users_df = sort_descending mean_age (occupation_rows_with K users_df)"
  by (simp add: mean_age_by_occupation_with_def occupation_rows_with_def groupby_def comp_def)




lemma occupation_group:
  assumes "occ \<in> u_occupation ` set users_df"
  shows "filter (\<lambda>r. occupation r = occ) (mean_age_by_occupation_with K users_df) =
           [occupation_record (occ, agg_age_with K (ages_of occ users_df))]"
proof -
  let ?keys = "sort (remdups (map u_occupation users_df))"
  have keys: "filter (\<lambda>k. k = occ) ?keys = [occ]"
    using assms by (intro filter_eq_distinct) auto
  have "filter (\<lambda>r. occupation r = occ) (occupation_rows_with K users_df) =
        [occupation_record (occ, agg_age_with K (ages_of occ users_df))]"
    unfolding occupation_rows_with_def filter_map_key occupation_record_occupation keys ages_of_def
    by simp
  then show ?thesis
    unfolding mean_age_by_occupation_with_rows filter_sort_descending
    by (simp add: sort_descending_def)
qed


lemma double_ops_sel:
  "f_mean double_ops = double_mean"
  "f_round double_ops = np_round"
  "f_std double_ops = f_std exact_ops"
  "f_corr double_ops = f_corr exact_ops"
  unfolding double_ops_def by simp_all







lemma students_ages:
  "ages_of ''student'' ex_students =
     [18, 18, 18, 18, 18, 18, 18, 18, 18, 18, 18, 18, 18, 18, 18, 18, 18, 18, 18, 18,
      18, 18, 18, 18, 18, 18, 18, 18, 18, 18, 18, 18, 18, 18, 18, 18, 18, 18, 18, 29]"
  by (simp add: ages_of_def ex_students_def mk_user_def)

lemma students_exact: "round_decimals 2 (mean (ages_of ''student'' ex_students)) = 1828 / 100"
  unfolding students_ages by (simp add: round_decimals_def mean_def rint_def)

lemma students_double:
  "np_round 2 (double_mean (ages_of ''student'' ex_students)) = fl (1827 / 100)"
proof -
  have a: "double_mean (ages_of ''student'' ex_students) = of_int 5143955199387238 / 2 ^ 48"
    unfolding students_ages
    by (rule double_mean_eval [of _ 731 40], simp, simp, rule fl_evalI) (simp_all add: rint_def)
  have "fl (of_int 5143955199387238 / 2 ^ 48 * 10 ^ 2) = of_int 8037429999042559 / 2 ^ 42"
    by (rule fl_evalI) (simp_all add: rint_def)
  moreover have "rint (of_int 8037429999042559 / 2 ^ 42) = 1827"
    by (simp add: rint_def)
  ultimately have "np_round 2 (of_int 5143955199387238 / 2 ^ 48) = fl (of_int 1827 / 10 ^ 2)"
    by (rule np_round_eval)
  then show ?thesis
    unfolding a by simp
qed

lemma fl_1827: "fl (1827 / 100) = 5142547824503685 / 2 ^ 48"
  using fl_evalI [of "1827 / 100" 48 5142547824503685] by (simp add: rint_def)

subsection \<open>Task 2 over doubles\<close>

lemma agg_rating_exact: "agg_rating rs = agg_rating_with exact_ops rs"
  by (simp add: agg_rating_def agg_rating_with_def std_def std_with_def exact_ops_sel)

lemma top_rated_movies_exact:
  "top_rated_movies ratings_df movies_df min_ratings top_n =
     top_rated_movies_with exact_ops ratings_df movies_df min_ratings top_n"
  by (simp add: top_rated_movies_def top_rated_movies_with_def movie_stats_def movie_stats_with_def
      agg_rating_exact)

lemma head_take: "\<exists>k. head n xs = take k xs"
  by (auto simp: head_def)

lemma length_head_eq:
  "length (head n xs) = (if 0 \<le> n then min (nat n) (length xs) else length xs - nat (- n))"
  by (auto simp: head_def)

lemma sorted_wrt_take_rest:
  assumes "sorted_wrt R xs" and "x \<in> set (take k xs)" and "y \<in> set xs" and "y \<notin> set (take k xs)"
  shows "R x y"
proof -
  have "set xs = set (take k xs) \<union> set (drop k xs)"
    by (metis append_take_drop_id set_append)
  then have "y \<in> set (drop k xs)" using assms(3,4) by auto
  moreover have "sorted_wrt R (take k xs @ drop k xs)" using assms(1) by simp
  ultimately show ?thesis using assms(2) unfolding sorted_wrt_append by blast
qed

lemma sorted_wrt_head_rest:
  assumes "sorted_wrt R xs" and "x \<in> set (head n xs)" and "y \<in> set xs" and "y \<notin> set (head n xs)"
  shows "R x y"
proof -
  obtain k where "head n xs = take k xs" using head_take by blast
  then show ?thesis using assms sorted_wrt_take_rest [of R xs x k y] by simp
qed

lemma qualified_movies_ids:
  "qualified_movies K ratings_df min_ratings =
     map (\<lambda>mid. (mid, agg_rating_with K (ratings_of mid ratings_df)))
       (qualified_ids ratings_df min_ratings)"
  by (simp add: qualified_movies_def movie_stats_with_def groupby_def qualified_ids_def ratings_of_def
      filter_map comp_def agg_rating_with_def)

lemma top_rated_movies_with_collect:
  "top_rated_movies_with K ratings_df movies_df min_ratings top_n =
     collect (movie_record movies_df) (top_movies_with K ratings_df min_ratings top_n)"
  by (simp add: top_rated_movies_with_def top_movies_with_def qualified_movies_def)

lemma top_movies_with_mem:
  assumes "(mid, st) \<in> set (top_movies_with K ratings_df min_ratings top_n)"
  shows "st = agg_rating_with K (ratings_of mid ratings_df)"
    and "mid \<in> set (qualified_ids ratings_df min_ratings)"
    and "min_ratings \<le> int (length (ratings_of mid ratings_df))"
proof -
  have "(mid, st) \<in> set (qualified_movies K ratings_df min_ratings)"
    using assms set_head [of top_n] unfolding top_movies_with_def by fastforce
  then show "st = agg_rating_with K (ratings_of mid ratings_df)"
    and m: "mid \<in> set (qualified_ids ratings_df min_ratings)"
    by (auto simp: qualified_movies_ids)
  from m show "min_ratings \<le> int (length (ratings_of mid ratings_df))"
    by (simp add: qualified_ids_def)
qed

lemma top_movies_with_sorted:
  "sorted_wrt (\<lambda>a b. rg_mean (snd b) \<le> rg_mean (snd a)) (top_movies_with K ratings_df min_ratings top_n)"
  unfolding top_movies_with_def
  using sort_descending_sorted [of "\<lambda>(mid, stats). rg_mean stats"]
  by (intro sorted_wrt_head) (simp add: case_prod_unfold)

lemma top_movies_with_length:
  "length (top_movies_with K ratings_df min_ratings top_n) =
     (if 0 \<le> top_n then min (nat top_n) (length (qualified_ids ratings_df min_ratings))
      else length (qualified_ids ratings_df min_ratings) - nat (- top_n))"
  by (simp add: top_movies_with_def length_head_eq qualified_movies_ids)

lemma top_movies_with_rest:
  assumes "(mid, st) \<in> set (top_movies_with K ratings_df min_ratings top_n)"
    and "mid' \<in> set (qualified_ids ratings_df min_ratings)"
    and "mid' \<notin> fst ` set (top_movies_with K ratings_df min_ratings top_n)"
  shows "rg_mean (agg_rating_with K (ratings_of mid' ratings_df)) \<le> rg_mean st"
proof -
  let ?xs = "sort_descending (\<lambda>(mid, stats). rg_mean stats) (qualified_movies K ratings_df min_ratings)"
  let ?y = "(mid', agg_rating_with K (ratings_of mid' ratings_df))"
  have s: "sorted_wrt (\<lambda>a b. rg_mean (snd b) \<le> rg_mean (snd a)) ?xs"
    using sort_descending_sorted [of "\<lambda>(mid, stats). rg_mean stats"] by (simp add: case_prod_unfold)
  have y: "?y \<in> set ?xs" using assms(2) by (simp add: qualified_movies_ids)
  have n: "?y \<notin> set (head top_n ?xs)"
    using assms(3) unfolding top_movies_with_def by force
  have "rg_mean (snd ?y) \<le> rg_mean (snd (mid, st))"
    using sorted_wrt_head_rest [OF s assms(1) [unfolded top_movies_with_def] y n] .
  then show ?thesis by simp
qed

lemma top_rated_movies_with_props:
  assumes "top_rated_movies_with K ratings_df movies_df min_ratings top_n = Inr results"
  shows "\<And>r. r \<in> set results \<Longrightarrow>
            movie_id r \<in> set (qualified_ids ratings_df min_ratings) \<and>
            rating_count r = int (length (ratings_of (movie_id r) ratings_df)) \<and>
            min_ratings \<le> rating_count r \<and>
            avg_rating r = f_round K 3 (f_mean K (ratings_of (movie_id r) ratings_df)) \<and>
            (\<exists>m ms. filter (\<lambda>m. m_movie_id m = movie_id r) movies_df = m # ms \<and>
               release_date r = release_date_or_unknown (m_release_date m))"
    and "sorted_wrt (\<lambda>a b. avg_rating b \<le> avg_rating a) results"
    and "length results =
           (if 0 \<le> top_n then min (nat top_n) (length (qualified_ids ratings_df min_ratings))
            else length (qualified_ids ratings_df min_ratings) - nat (- top_n))"
    and "\<And>r mid. r \<in> set results \<Longrightarrow> mid \<in> set (qualified_ids ratings_df min_ratings) \<Longrightarrow>
            mid \<notin> movie_id ` set results \<Longrightarrow>
            f_round K 3 (f_mean K (ratings_of mid ratings_df)) \<le> avg_rating r"
proof -
  let ?top = "top_movies_with K ratings_df min_ratings top_n"
  have c: "collect (movie_record movies_df) ?top = Inr results"
    using assms by (simp add: top_rated_movies_with_collect)
  have ids: "map movie_id results = map fst ?top"
    using c by (rule collect_map) (auto dest: movie_record_fields)
  show "movie_id r \<in> set (qualified_ids ratings_df min_ratings) \<and>
            rating_count r = int (length (ratings_of (movie_id r) ratings_df)) \<and>
            min_ratings \<le> rating_count r \<and>
            avg_rating r = f_round K 3 (f_mean K (ratings_of (movie_id r) ratings_df)) \<and>
            (\<exists>m ms. filter (\<lambda>m. m_movie_id m = movie_id r) movies_df = m # ms \<and>
               release_date r = release_date_or_unknown (m_release_date m))"
    if rin: "r \<in> set results" for r
  proof -
    obtain mid st where x: "(mid, st) \<in> set ?top" and r: "movie_record movies_df (mid, st) = Inr r"
      using collect_mem [OF c rin] by (metis surj_pair)
    note st = top_movies_with_mem [OF x]
    note f = movie_record_fields [OF r]
    show ?thesis
      using st f by (auto simp: agg_rating_with_def)
  qed
  have "map avg_rating results = map (\<lambda>x. rg_mean (snd x)) ?top"
    using c by (rule collect_map) (auto dest: movie_record_fields)
  moreover have "sorted_wrt (\<lambda>a b. b \<le> a) (map (\<lambda>x. rg_mean (snd x)) ?top)"
    using top_movies_with_sorted by (simp add: sorted_wrt_map)
  ultimately have "sorted_wrt (\<lambda>a b. b \<le> a) (map avg_rating results)" by simp
  then show "sorted_wrt (\<lambda>a b. avg_rating b \<le> avg_rating a) results"
    by (simp add: sorted_wrt_map)
  show "length results =
           (if 0 \<le> top_n then min (nat top_n) (length (qualified_ids ratings_df min_ratings))
            else length (qualified_ids ratings_df min_ratings) - nat (- top_n))"
    using collect_length [OF c] by (simp only: top_movies_with_length)
  show "f_round K 3 (f_mean K (ratings_of mid ratings_df)) \<le> avg_rating r"
    if rin: "r \<in> set results" and q: "mid \<in> set (qualified_ids ratings_df min_ratings)"
      and n: "mid \<notin> movie_id ` set results" for r mid
  proof -
    obtain mid0 st where x: "(mid0, st) \<in> set ?top" and r: "movie_record movies_df (mid0, st) = Inr r"
      using collect_mem [OF c rin] by (metis surj_pair)
    have "movie_id ` set results = fst ` set ?top"
      using ids by (metis set_map)
    then have "mid \<notin> fst ` set ?top" using n by simp
    from top_movies_with_rest [OF x q this] movie_record_fields(2) [OF r]
    show ?thesis by (simp add: agg_rating_with_def)
  qed
qed

lemma top_rated_negative_example:
  "top_rated_movies_with exact_ops ex_ratings ex_movies 2 (- 1) =
     Inr [\<lparr>movie_id = 8, title = Some ''Eight'', avg_rating = 5, rating_count = 3, rating_std = 0,
           release_date = ''01-Jan-1995''\<rparr>]"
  by (simp add: top_rated_movies_with_def movie_stats_with_def groupby_def ex_ratings_def mk_rating_def
      agg_rating_with_def std_with_def exact_ops_sel mean_def sample_var_def sort_descending_def head_def
      movie_record_def iloc0_def ex_movies_def mk_movie_def release_date_or_unknown_def
      round_decimals_of_int [of _ 5, simplified] round_decimals_of_int [of _ 4, simplified]
      round_decimals_of_int [of _ 0, simplified])

lemma ex_qualified_ids: "qualified_ids ex_ratings 2 = [7, 8]"
  by (simp add: qualified_ids_def ex_ratings_def ratings_of_def)

subsection \<open>Task 4 over doubles\<close>

lemma corrcoef_exact: "corrcoef xs ys = corrcoef_with exact_ops xs ys"
  by (simp add: corrcoef_def corrcoef_with_def exact_ops_sel Let_def)

lemma corrcoef_with_range: "corrcoef_with K xs ys = Some c \<Longrightarrow> - 1 \<le> c \<and> c \<le> 1"
proof -
  have "np_clip v = Some c \<Longrightarrow> - 1 \<le> c \<and> c \<le> 1" for v
    by (cases v) auto
  then show "corrcoef_with K xs ys = Some c \<Longrightarrow> - 1 \<le> c \<and> c \<le> 1"
    by (simp add: corrcoef_with_def)
qed

lemma pair_correlation_with_range:
  "- 1 \<le> pair_correlation_with K merged \<and> pair_correlation_with K merged \<le> 1"
  using corrcoef_with_range [of K "target_vals merged" "movie_vals merged"]
  by (auto simp: pair_correlation_with_def split: option.splits)

lemma pair_similarity_with_range:
  "0 \<le> pair_similarity_with K merged \<and> pair_similarity_with K merged \<le> 1"
  using pair_correlation_with_range [of K merged]
    fl_unit_range [of "pair_correlation_with K merged + 1"]
  by (simp add: pair_similarity_with_def)

lemma candidate_similarity_with_Some:
  assumes "candidate_similarity_with K tr tu thr cthr mr = Some d"
  shows "sd_cooccurrence_count d = card (common_users tu mr)"
    and "sd_similarity_score d = pair_similarity_with K (merged_ratings tr mr (common_users tu mr))"
    and "sd_correlation d = pair_correlation_with K (merged_ratings tr mr (common_users tu mr))"
    and "cthr \<le> int (sd_cooccurrence_count d)"
    and "thr \<le> sd_similarity_score d"
    and "2 \<le> length (merged_ratings tr mr (common_users tu mr))"
  using assms
  by (auto simp: candidate_similarity_with_def pair_similarity_with_def Let_def split: if_splits)

lemma candidate_similarity_with_kept:
  "candidate_similarity_with K tr tu thr cthr mr \<noteq> None \<longleftrightarrow>
     cthr \<le> int (card (common_users tu mr)) \<and>
     2 \<le> length (merged_ratings tr mr (common_users tu mr)) \<and>
     thr \<le> pair_similarity_with K (merged_ratings tr mr (common_users tu mr))"
  by (auto simp: candidate_similarity_with_def pair_similarity_with_def Let_def)

lemma movie_similarities_with_keys:
  "map fst (movie_similarities_with K tid thr cthr ratings_df) = kept_ids K tid thr cthr ratings_df"
  unfolding movie_similarities_with_def Let_def map_filter_keys
  by (simp add: groupby_def kept_ids_def filter_map comp_def)

lemma movie_similarities_with_mem:
  assumes "(mid, d) \<in> set (movie_similarities_with K tid thr cthr ratings_df)"
  shows "candidate_similarity_with K (target_movie_ratings tid ratings_df)
           (set (map r_user_id (target_movie_ratings tid ratings_df))) thr cthr
           (filter (\<lambda>r. r_movie_id r = mid) (corated_movies tid ratings_df)) = Some d"
proof -
  obtain v where v: "(mid, v) \<in> set (groupby r_movie_id (corated_movies tid ratings_df))"
    and c: "candidate_similarity_with K (target_movie_ratings tid ratings_df)
           (set (map r_user_id (target_movie_ratings tid ratings_df))) thr cthr v = Some d"
    using map_filter_mem [OF assms [unfolded movie_similarities_with_def Let_def]] by blast
  from v have "v = filter (\<lambda>r. r_movie_id r = mid) (corated_movies tid ratings_df)"
    by (simp add: groupby_member)
  with c show ?thesis by simp
qed

lemma similar_to_with_collect:
  "similar_to_with K tid thr cthr top_n ratings_df movies_df =
     collect (similar_record movies_df) (sorted_movies_with K tid thr cthr top_n ratings_df)"
  by (simp add: similar_to_with_def sorted_movies_with_def)

lemma sorted_movies_with_subset:
  "set (sorted_movies_with K tid thr cthr top_n ratings_df) \<subseteq>
     set (movie_similarities_with K tid thr cthr ratings_df)"
  unfolding sorted_movies_with_def using set_head [of top_n] by fastforce

lemma sorted_movies_with_length:
  "length (sorted_movies_with K tid thr cthr top_n ratings_df) =
     (if 0 \<le> top_n then min (nat top_n) (length (kept_ids K tid thr cthr ratings_df))
      else length (kept_ids K tid thr cthr ratings_df) - nat (- top_n))"
proof -
  have "length (movie_similarities_with K tid thr cthr ratings_df) =
        length (kept_ids K tid thr cthr ratings_df)"
    by (metis movie_similarities_with_keys length_map)
  then show ?thesis
    by (simp add: sorted_movies_with_def length_head_eq)
qed

lemma similar_to_with_member:
  assumes "similar_to_with K tid thr cthr top_n ratings_df movies_df = Inr results" and "r \<in> set results"
  shows "\<exists>d. candidate_similarity_with K (target_movie_ratings tid ratings_df)
           (set (map r_user_id (target_movie_ratings tid ratings_df))) thr cthr
           (filter (\<lambda>x. r_movie_id x = sm_movie_id r) (corated_movies tid ratings_df)) = Some d \<and>
         similarity_score r = sd_similarity_score d \<and>
         cooccurrence_count r = int (sd_cooccurrence_count d) \<and>
         correlation r = sd_correlation d"
proof -
  obtain mid d where x: "(mid, d) \<in> set (sorted_movies_with K tid thr cthr top_n ratings_df)"
    and r: "similar_record movies_df (mid, d) = Inr r"
    using collect_mem [OF assms(1) [unfolded similar_to_with_collect] assms(2)] by (metis surj_pair)
  have "(mid, d) \<in> set (movie_similarities_with K tid thr cthr ratings_df)"
    using x sorted_movies_with_subset by blast
  then show ?thesis
    using movie_similarities_with_mem similar_record_fields [OF r] by auto
qed

lemma similar_to_with_length:
  assumes "similar_to_with K tid thr cthr top_n ratings_df movies_df = Inr results"
  shows "length results =
     (if 0 \<le> top_n then min (nat top_n) (length (kept_ids K tid thr cthr ratings_df))
      else length (kept_ids K tid thr cthr ratings_df) - nat (- top_n))"
  using collect_length [OF assms [unfolded similar_to_with_collect]]
  by (simp only: sorted_movies_with_length)

lemma similar_movies_with_target:
  assumes "similar_movies_with K engine target_movie thr cthr top_n ratings_df movies_df = Inr results"
  shows "\<exists>t. find_target engine target_movie movies_df = Inr t \<and>
     similar_to_with K (m_movie_id t) thr cthr top_n ratings_df movies_df = Inr results"
  using assms by (auto simp: similar_movies_with_def split: sum.splits)

lemma corrcoef_flat:
  "corrcoef_with exact_ops [5, 5] [3, 4] = None"
  "corrcoef_with exact_ops [5, 5, 4] [4, 4, 4] = None"
  unfolding corrcoef_exact [symmetric]
  by (rule corrcoef_zero_variance, simp add: constant_variance [of _ 5])
     (rule corrcoef_zero_variance, simp add: constant_variance [of _ 4])

lemma ex_flat_corated:
  "groupby r_movie_id (corated_movies 1 ex_flat_ratings) =
     [(2, [mk_rating 1 2 3, mk_rating 2 2 4]),
      (3, [mk_rating 1 3 4, mk_rating 2 3 4, mk_rating 3 3 4]),
      (4, [mk_rating 3 4 2])]"
    "target_movie_ratings 1 ex_flat_ratings = [mk_rating 1 1 5, mk_rating 2 1 5, mk_rating 3 1 4]"
  by (simp_all add: groupby_def corated_movies_def target_movie_ratings_def ex_flat_ratings_def mk_rating_def)

lemma ex_flat_candidates:
  "candidate_similarity_with exact_ops [mk_rating 1 1 5, mk_rating 2 1 5, mk_rating 3 1 4] {1, 2, 3}
     (1 / 2) 2 [mk_rating 1 2 3, mk_rating 2 2 4] =
   Some \<lparr>sd_similarity_score = 1 / 2, sd_cooccurrence_count = 2, sd_correlation = 0\<rparr>"
  "candidate_similarity_with exact_ops [mk_rating 1 1 5, mk_rating 2 1 5, mk_rating 3 1 4] {1, 2, 3}
     (1 / 2) 2 [mk_rating 1 3 4, mk_rating 2 3 4, mk_rating 3 3 4] =
   Some \<lparr>sd_similarity_score = 1 / 2, sd_cooccurrence_count = 3, sd_correlation = 0\<rparr>"
  "candidate_similarity_with exact_ops [mk_rating 1 1 5, mk_rating 2 1 5, mk_rating 3 1 4] {1, 2, 3}
     (1 / 2) 2 [mk_rating 3 4 2] = None"
  by (simp_all add: candidate_similarity_with_def common_users_def merged_ratings_def merge_on_def
      mk_rating_def pair_correlation_with_def target_vals_def movie_vals_def
      corrcoef_flat fl_one)

lemma ex_flat_similarities:
  "movie_similarities_with exact_ops 1 (1 / 2) 2 ex_flat_ratings =
     [(2, \<lparr>sd_similarity_score = 1 / 2, sd_cooccurrence_count = 2, sd_correlation = 0\<rparr>),
      (3, \<lparr>sd_similarity_score = 1 / 2, sd_cooccurrence_count = 3, sd_correlation = 0\<rparr>)]"
  by (simp add: movie_similarities_with_def ex_flat_corated List.map_filter_simps ex_flat_candidates)

lemma ex_flat_target:
  "find_target no_engine ''usual suspects'' ex_sim_movies =
     Inr (mk_movie 1 ''Usual Suspects, The (1995)'' (Some ''14-Aug-1995''))"
  by (simp add: find_target_def str_contains_def ex_sim_movies_def mk_movie_def title_matches_def)

lemma flat_similarity_example:
  "similar_movies_with exact_ops no_engine ''usual suspects'' (1 / 2) 2 10 ex_flat_ratings ex_sim_movies =
     Inr ex_flat_similar"
proof -
  have "similar_to_with exact_ops 1 (1 / 2) 2 10 ex_flat_ratings ex_sim_movies = Inr ex_flat_similar"
    unfolding similar_to_with_def ex_flat_similarities
    by (simp add: sort_descending_def head_def similar_record_def iloc0_def ex_sim_movies_def
        mk_movie_def release_date_or_unknown_def ex_flat_similar_def)
  then show ?thesis
    by (simp add: similar_movies_with_def ex_flat_target mk_movie_def)
qed

lemma ex_flat_kept: "kept_ids exact_ops 1 (1 / 2) 2 ex_flat_ratings = [2, 3]"
  unfolding movie_similarities_with_keys [symmetric] ex_flat_similarities by simp

subsection \<open>The claims\<close>





text \<open>
  C7 (as amended). For every occupation present in the Users table the output holds exactly
  one record of that occupation; its mean_age is the mean of the group's ages as pandas
  computes it, rounded to 2 decimals as numpy rounds it, its user_count the size of the
  group, its min_age and max_age the least and greatest age of the group, and its std_dev
  the sample standard deviation as pandas computes it, rounded to 2 decimals in the same way,
  or 0 when the group has fewer than 2 members.
\<close>

theorem demographic_stats:
  assumes "occ \<in> u_occupation ` set users_df"
  shows "filter (\<lambda>r. occupation r = occ) (mean_age_by_occupation_with K users_df) =
    [\<lparr>occupation = occ,
      mean_age = f_round K 2 (f_mean K (ages_of occ users_df)),
      user_count = int (length (ages_of occ users_df)),
      std_dev = (if length (ages_of occ users_df) < 2 then 0
                 else f_round K 2 (f_std K (ages_of occ users_df))),
      min_age = Min (set (ages_of occ users_df)),
      max_age = Max (set (ages_of occ users_df))\<rparr>]"
  unfolding occupation_group [OF assms]
  by (simp add: occupation_record_def agg_age_with_def std_with_def)

text \<open>
  In doubles the forty students, of mean age 18.275, are reported with the mean age 18.27:
  the double nearest to 18.275 is below it. With exact arithmetic the mean age would be
  rounded to 18.28.
\<close>

theorem demographic_stats_witness:
  "''student'' \<in> u_occupation ` set ex_students \<and>
   map mean_age (filter (\<lambda>r. occupation r = ''student'')
     (mean_age_by_occupation_with double_ops ex_students)) = [fl (1827 / 100)] \<and>
   map user_count (filter (\<lambda>r. occupation r = ''student'')
     (mean_age_by_occupation_with double_ops ex_students)) = [40] \<and>
   map min_age (filter (\<lambda>r. occupation r = ''student'')
     (mean_age_by_occupation_with double_ops ex_students)) = [18] \<and>
   map max_age (filter (\<lambda>r. occupation r = ''student'')
     (mean_age_by_occupation_with double_ops ex_students)) = [29] \<and>
   fl (1827 / 100) = 5142547824503685 / 2 ^ 48 \<and>
   round_decimals 2 (mean (ages_of ''student'' ex_students)) = 1828 / 100 \<and>
   ''engineer'' \<in> u_occupation ` set [u1, u2, u3] \<and>
   filter (\<lambda>r. occupation r = ''engineer'') (mean_age_by_occupation_with exact_ops [u1, u2, u3]) =
     [\<lparr>occupation = ''engineer'', mean_age = 30, user_count = 2, std_dev = 707 / 100,
       min_age = 25, max_age = 35\<rparr>] \<and>
   ''doctor'' \<in> u_occupation ` set [u1, u2, u3] \<and>
   filter (\<lambda>r. occupation r = ''doctor'') (mean_age_by_occupation_with exact_ops [u1, u2, u3]) =
     [\<lparr>occupation = ''doctor'', mean_age = 40, user_count = 1, std_dev = 0,
       min_age = 40, max_age = 40\<rparr>]"
proof -
  have s: "''student'' \<in> u_occupation ` set ex_students"
    by (simp add: ex_students_def mk_user_def)
  have e: "ages_of ''engineer'' [u1, u2, u3] = [25, 35]"
    and d: "ages_of ''doctor'' [u1, u2, u3] = [40]"
    by (simp_all add: ages_of_def u1_def u2_def u3_def)
  have m: "round_decimals 2 30 = 30" "round_decimals 2 40 = 40"
    by (simp_all add: round_decimals_def rint_def)
  have h: "''engineer'' \<in> u_occupation ` set [u1, u2, u3]" "''doctor'' \<in> u_occupation ` set [u1, u2, u3]"
    by (simp_all add: u1_def u2_def u3_def)
  have x: "filter (\<lambda>r. occupation r = ''engineer'') (mean_age_by_occupation_with exact_ops [u1, u2, u3]) =
     [\<lparr>occupation = ''engineer'', mean_age = 30, user_count = 2, std_dev = 707 / 100,
       min_age = 25, max_age = 35\<rparr>]"
    "filter (\<lambda>r. occupation r = ''doctor'') (mean_age_by_occupation_with exact_ops [u1, u2, u3]) =
     [\<lparr>occupation = ''doctor'', mean_age = 40, user_count = 1, std_dev = 0,
       min_age = 40, max_age = 40\<rparr>]"
    using demographic_stats [OF h(1), of exact_ops] demographic_stats [OF h(2), of exact_ops]
    by (simp_all add: e d exact_ops_sel mean_def sample_var_def round_sqrt_50 m)
  show ?thesis
    using demographic_stats [OF s, of double_ops] s h x
    by (simp add: double_ops_sel students_double students_exact fl_1827) (simp add: students_ages)
qed

text \<open>
  C7 as stated fails: for two engineers of ages 25 and 35 the sample standard deviation is
  \<open>sqrt 50\<close>, and the reported std_dev is 7.07.
\<close>

theorem demographic_std_dev_counterexample:
  "mean_age_by_occupation [u1, u2] =
     [\<lparr>occupation = ''engineer'', mean_age = 30, user_count = 2, std_dev = 707 / 100,
       min_age = 25, max_age = 35\<rparr>] \<and>
   sample_var (ages_of ''engineer'' [u1, u2]) = 50 \<and> sqrt 50 \<noteq> 707 / 100"
proof -
  have "sqrt 50 \<noteq> 707 / 100"
  proof
    assume "sqrt 50 = 707 / 100"
    then have "(sqrt 50)\<^sup>2 = (707 / 100)\<^sup>2" by (simp only:)
    moreover have "(sqrt 50)\<^sup>2 = (50::real)" by (rule real_sqrt_pow2) simp
    ultimately have "(50::real) = (707 / 100)\<^sup>2" by (simp only:)
    then show False by (simp add: power2_eq_square)
  qed
  moreover have "sample_var (ages_of ''engineer'' [u1, u2]) = 50"
    by (simp add: ages_of_def u1_def u2_def sample_var_def mean_def power2_eq_square)
  ultimately show ?thesis using demographic_example by simp
qed

text \<open>
  C8. The age-bucket function sends every age to exactly one of five pairwise different
  labels: ages in [20,25) to "20-25", ages in [25,35) to "25-35", ages in [35,45) to
  "35-45", ages from 45 on to "45+", and every age below 20 to "Under 20".
\<close>

theorem get_age_group_buckets:
  "(20 \<le> age \<and> age < 25 \<longrightarrow> get_age_group age = ''20-25'') \<and>
   (25 \<le> age \<and> age < 35 \<longrightarrow> get_age_group age = ''25-35'') \<and>
   (35 \<le> age \<and> age < 45 \<longrightarrow> get_age_group age = ''35-45'') \<and>
   (45 \<le> age \<longrightarrow> get_age_group age = ''45+'') \<and>
   (age < 20 \<longrightarrow> get_age_group age = ''Under 20'') \<and>
   get_age_group age \<in> {''20-25'', ''25-35'', ''35-45'', ''45+'', ''Under 20''} \<and>
   distinct [''20-25'', ''25-35'', ''35-45'', ''45+'', ''Under 20'']"
  by (simp add: get_age_group_def)

theorem get_age_group_buckets_witness:
  "get_age_group 20 = ''20-25'' \<and> get_age_group 24 = ''20-25'' \<and>
   get_age_group 25 = ''25-35'' \<and> get_age_group 34 = ''25-35'' \<and>
   get_age_group 35 = ''35-45'' \<and> get_age_group 44 = ''35-45'' \<and>
   get_age_group 45 = ''45+'' \<and> get_age_group 73 = ''45+'' \<and>
   get_age_group 19 = ''Under 20'' \<and> get_age_group 7 = ''Under 20''"
  using get_age_group_buckets [of 20] get_age_group_buckets [of 24]
    get_age_group_buckets [of 25] get_age_group_buckets [of 34]
    get_age_group_buckets [of 35] get_age_group_buckets [of 44]
    get_age_group_buckets [of 45] get_age_group_buckets [of 73]
    get_age_group_buckets [of 19] get_age_group_buckets [of 7]
  by simp

text \<open>
  C6 (as amended). Every record returned by the rating aggregation is of a movie with at
  least min_ratings ratings, and its rating_count is the number of these ratings; its
  avg_rating is the mean rating as pandas computes it, rounded to 3 decimals as numpy rounds
  it. The list is sorted by avg_rating descending, and no movie with enough ratings that is
  left out has a greater reported mean than a movie of the list. For a non-negative top_n
  the list holds top_n records, or all movies with enough ratings when these are fewer; for
  a negative top_n it holds all of them but the last \<open>- top_n\<close>. A movie whose release date
  is absent is reported with release_date "Unknown".
\<close>

theorem top_rated_movies_contract:
  assumes "top_rated_movies_with K ratings_df movies_df min_ratings top_n = Inr results"
  shows "(\<forall>r\<in>set results.
            movie_id r \<in> set (qualified_ids ratings_df min_ratings) \<and>
            rating_count r = int (length (ratings_of (movie_id r) ratings_df)) \<and>
            min_ratings \<le> rating_count r \<and>
            avg_rating r = f_round K 3 (f_mean K (ratings_of (movie_id r) ratings_df)) \<and>
            (\<forall>m ms. filter (\<lambda>m. m_movie_id m = movie_id r) movies_df = m # ms \<and>
               m_release_date m = None \<longrightarrow> release_date r = ''Unknown'') \<and>
            (\<forall>mid\<in>set (qualified_ids ratings_df min_ratings) - movie_id ` set results.
               f_round K 3 (f_mean K (ratings_of mid ratings_df)) \<le> avg_rating r)) \<and>
         sorted_wrt (\<lambda>a b. avg_rating b \<le> avg_rating a) results \<and>
         (0 \<le> top_n \<longrightarrow>
            length results = min (nat top_n) (length (qualified_ids ratings_df min_ratings)) \<and>
            int (length results) \<le> top_n) \<and>
         (top_n < 0 \<longrightarrow>
            length results = length (qualified_ids ratings_df min_ratings) - nat (- top_n))"
proof (intro conjI ballI impI)
  fix r assume r: "r \<in> set results"
  note p = top_rated_movies_with_props(1) [OF assms r]
  show "movie_id r \<in> set (qualified_ids ratings_df min_ratings)"
    and "rating_count r = int (length (ratings_of (movie_id r) ratings_df))"
    and "min_ratings \<le> rating_count r"
    and "avg_rating r = f_round K 3 (f_mean K (ratings_of (movie_id r) ratings_df))"
    using p by simp_all
  show "\<forall>m ms. filter (\<lambda>m. m_movie_id m = movie_id r) movies_df = m # ms \<and>
               m_release_date m = None \<longrightarrow> release_date r = ''Unknown''"
    using p by (auto simp: release_date_or_unknown_def)
  show "f_round K 3 (f_mean K (ratings_of mid ratings_df)) \<le> avg_rating r"
    if "mid \<in> set (qualified_ids ratings_df min_ratings) - movie_id ` set results" for mid
    using top_rated_movies_with_props(4) [OF assms r, of mid] that by simp
next
  show "sorted_wrt (\<lambda>a b. avg_rating b \<le> avg_rating a) results"
    by (rule top_rated_movies_with_props(2) [OF assms])
next
  assume "0 \<le> top_n"
  then show "length results = min (nat top_n) (length (qualified_ids ratings_df min_ratings))"
    and "int (length results) \<le> top_n"
    using top_rated_movies_with_props(3) [OF assms] by simp_all
next
  assume "top_n < 0"
  then show "length results = length (qualified_ids ratings_df min_ratings) - nat (- top_n)"
    using top_rated_movies_with_props(3) [OF assms] by simp
qed

theorem top_rated_movies_contract_witness:
  "top_rated_movies_with exact_ops ex_ratings ex_movies 2 2 = Inr ex_top_rated \<and>
   map movie_id ex_top_rated = [8, 7] \<and>
   qualified_ids ex_ratings 2 = [7, 8] \<and>
   map rating_count ex_top_rated = [3, 2] \<and>
   map avg_rating ex_top_rated = [5, 4] \<and>
   sorted_wrt (\<lambda>a b. avg_rating b \<le> avg_rating a) ex_top_rated \<and>
   length ex_top_rated = 2 \<and>
   filter (\<lambda>m. m_movie_id m = 7) ex_movies = [mk_movie 7 ''Seven'' None] \<and>
   map release_date ex_top_rated = [''01-Jan-1995'', ''Unknown''] \<and>
   top_rated_movies_with exact_ops ex_ratings ex_movies 2 (- 1) =
     Inr [\<lparr>movie_id = 8, title = Some ''Eight'', avg_rating = 5, rating_count = 3, rating_std = 0,
           release_date = ''01-Jan-1995''\<rparr>]"
  using top_rated_movies_contract [OF top_rated_example [unfolded top_rated_movies_exact]]
    top_rated_movies_contract [OF top_rated_negative_example]
    top_rated_example [unfolded top_rated_movies_exact] top_rated_negative_example
  by (simp add: ex_top_rated_def ex_movies_def mk_movie_def ex_qualified_ids)

text \<open>
  C6 as stated fails: with top_n = -1 the rating aggregation returns one record, which is
  more than top_n.
\<close>

theorem top_rated_negative_counterexample:
  "top_rated_movies_with exact_ops ex_ratings ex_movies 2 (- 1) =
     Inr [\<lparr>movie_id = 8, title = Some ''Eight'', avg_rating = 5, rating_count = 3, rating_std = 0,
           release_date = ''01-Jan-1995''\<rparr>] \<and>
   top_rated_movies ex_ratings ex_movies 2 (- 1) =
     Inr [\<lparr>movie_id = 8, title = Some ''Eight'', avg_rating = 5, rating_count = 3, rating_std = 0,
           release_date = ''01-Jan-1995''\<rparr>] \<and>
   (- 1 :: int) <
     int (length [\<lparr>movie_id = 8, title = Some ''Eight'', avg_rating = 5, rating_count = 3,
                    rating_std = 0, release_date = ''01-Jan-1995''\<rparr>])"
  using top_rated_negative_example by (simp add: top_rated_movies_exact)



text \<open>
  C2. When either of the paired rating vectors of a candidate has zero variance (for
  example when all target ratings, or all ratings of the other movie, over the common users
  are equal), the correlation is 0 and the similarity score is exactly 1/2, whatever the
  other vector holds; a candidate that passes the two count checks is then stored with these
  values whenever the similarity threshold is at most 1/2. The loop body has no error case.
\<close>

theorem zero_variance_similarity:
  "(cov (target_vals merged) (target_vals merged) = 0 \<or> cov (movie_vals merged) (movie_vals merged) = 0
      \<longrightarrow> pair_correlation merged = 0 \<and> pair_similarity merged = 1 / 2) \<and>
   ((\<forall>p\<in>set merged. r_rating (fst p) = c) \<longrightarrow>
      pair_correlation merged = 0 \<and> pair_similarity merged = 1 / 2) \<and>
   ((\<forall>p\<in>set merged. r_rating (snd p) = c) \<longrightarrow>
      pair_correlation merged = 0 \<and> pair_similarity merged = 1 / 2) \<and>
   (merged = merged_ratings tr mr (common_users tu mr) \<and>
    (cov (target_vals merged) (target_vals merged) = 0 \<or> cov (movie_vals merged) (movie_vals merged) = 0) \<and>
    cthr \<le> int (card (common_users tu mr)) \<and> 2 \<le> length merged \<and> thr \<le> 1 / 2
      \<longrightarrow> candidate_similarity tr tu thr cthr mr =
            Some \<lparr>sd_similarity_score = 1 / 2,
                  sd_cooccurrence_count = card (common_users tu mr),
                  sd_correlation = 0\<rparr>)"
proof (intro conjI impI)
  assume "cov (target_vals merged) (target_vals merged) = 0 \<or> cov (movie_vals merged) (movie_vals merged) = 0"
  then show "pair_correlation merged = 0" and "pair_similarity merged = 1 / 2"
    by (rule zero_variance_pair)+
next
  assume "\<forall>p\<in>set merged. r_rating (fst p) = c"
  then have "cov (target_vals merged) (target_vals merged) = 0"
    by (rule constant_target_variance)
  then show "pair_correlation merged = 0" and "pair_similarity merged = 1 / 2"
    using zero_variance_pair by blast+
next
  assume "\<forall>p\<in>set merged. r_rating (snd p) = c"
  then have "cov (movie_vals merged) (movie_vals merged) = 0"
    by (rule constant_movie_variance)
  then show "pair_correlation merged = 0" and "pair_similarity merged = 1 / 2"
    using zero_variance_pair by blast+
next
  assume a: "merged = merged_ratings tr mr (common_users tu mr) \<and>
    (cov (target_vals merged) (target_vals merged) = 0 \<or> cov (movie_vals merged) (movie_vals merged) = 0) \<and>
    cthr \<le> int (card (common_users tu mr)) \<and> 2 \<le> length merged \<and> thr \<le> 1 / 2"
  then have z: "pair_correlation merged = 0" "pair_similarity merged = 1 / 2"
    using zero_variance_pair by blast+
  show "candidate_similarity tr tu thr cthr mr =
            Some \<lparr>sd_similarity_score = 1 / 2,
                  sd_cooccurrence_count = card (common_users tu mr),
                  sd_correlation = 0\<rparr>"
    using a z by (auto simp: candidate_similarity_def Let_def)
qed

theorem zero_variance_similarity_witness:
  "map (\<lambda>p. r_rating (fst p)) ex_merged = [5, 5] \<and>
   map (\<lambda>p. r_rating (snd p)) ex_merged = [3, 4] \<and>
   pair_correlation ex_merged = 0 \<and> pair_similarity ex_merged = 1 / 2 \<and>
   ex_merged = merged_ratings [mk_rating 1 1 5, mk_rating 2 1 5, mk_rating 3 1 4]
     [mk_rating 1 2 3, mk_rating 2 2 4] (common_users {1, 2, 3} [mk_rating 1 2 3, mk_rating 2 2 4]) \<and>
   card (common_users {1, 2, 3} [mk_rating 1 2 3, mk_rating 2 2 4]) = 2 \<and>
   candidate_similarity [mk_rating 1 1 5, mk_rating 2 1 5, mk_rating 3 1 4] {1, 2, 3} (1 / 2) 2
     [mk_rating 1 2 3, mk_rating 2 2 4] =
   Some \<lparr>sd_similarity_score = 1 / 2, sd_cooccurrence_count = 2, sd_correlation = 0\<rparr>"
proof -
  have m: "ex_merged = merged_ratings [mk_rating 1 1 5, mk_rating 2 1 5, mk_rating 3 1 4]
     [mk_rating 1 2 3, mk_rating 2 2 4] (common_users {1, 2, 3} [mk_rating 1 2 3, mk_rating 2 2 4])"
    and k: "card (common_users {1, 2, 3} [mk_rating 1 2 3, mk_rating 2 2 4]) = 2"
    by (simp_all add: ex_merged_def merged_ratings_def common_users_def merge_on_def)
  have v: "\<forall>p\<in>set ex_merged. r_rating (fst p) = 5"
    by (simp add: ex_merged_def)
  have l: "2 \<le> length ex_merged" by (simp add: ex_merged_def)
  note T = zero_variance_similarity [of ex_merged 5 "[mk_rating 1 1 5, mk_rating 2 1 5, mk_rating 3 1 4]"
        "[mk_rating 1 2 3, mk_rating 2 2 4]" "{1, 2, 3}" 2 "1 / 2"]
  have p: "pair_correlation ex_merged = 0" "pair_similarity ex_merged = 1 / 2"
    using T v by blast+
  have "ex_merged = merged_ratings [mk_rating 1 1 5, mk_rating 2 1 5, mk_rating 3 1 4]
          [mk_rating 1 2 3, mk_rating 2 2 4] (common_users {1, 2, 3} [mk_rating 1 2 3, mk_rating 2 2 4]) \<and>
        (cov (target_vals ex_merged) (target_vals ex_merged) = 0 \<or>
         cov (movie_vals ex_merged) (movie_vals ex_merged) = 0) \<and>
        2 \<le> int (card (common_users {1, 2, 3} [mk_rating 1 2 3, mk_rating 2 2 4])) \<and>
        2 \<le> length ex_merged \<and> (1 / 2 :: real) \<le> 1 / 2"
  proof (intro conjI)
    show "ex_merged = merged_ratings [mk_rating 1 1 5, mk_rating 2 1 5, mk_rating 3 1 4]
          [mk_rating 1 2 3, mk_rating 2 2 4] (common_users {1, 2, 3} [mk_rating 1 2 3, mk_rating 2 2 4])"
      by (rule m)
    show "cov (target_vals ex_merged) (target_vals ex_merged) = 0 \<or>
         cov (movie_vals ex_merged) (movie_vals ex_merged) = 0"
      using constant_target_variance [OF v] by (rule disjI1)
    show "2 \<le> int (card (common_users {1, 2, 3} [mk_rating 1 2 3, mk_rating 2 2 4]))"
      by (simp only: k)
    show "2 \<le> length ex_merged" by (rule l)
    show "(1 / 2 :: real) \<le> 1 / 2" by simp
  qed
  with T have "candidate_similarity [mk_rating 1 1 5, mk_rating 2 1 5, mk_rating 3 1 4] {1, 2, 3} (1 / 2) 2
     [mk_rating 1 2 3, mk_rating 2 2 4] =
     Some \<lparr>sd_similarity_score = 1 / 2,
           sd_cooccurrence_count = card (common_users {1, 2, 3} [mk_rating 1 2 3, mk_rating 2 2 4]),
           sd_correlation = 0\<rparr>"
    by blast
  then have c: "candidate_similarity [mk_rating 1 1 5, mk_rating 2 1 5, mk_rating 3 1 4] {1, 2, 3} (1 / 2) 2
     [mk_rating 1 2 3, mk_rating 2 2 4] =
     Some \<lparr>sd_similarity_score = 1 / 2, sd_cooccurrence_count = 2, sd_correlation = 0\<rparr>"
    by (simp only: k)
  have e: "map (\<lambda>p. r_rating (fst p)) ex_merged = [5, 5]" "map (\<lambda>p. r_rating (snd p)) ex_merged = [3, 4]"
    by (simp_all add: ex_merged_def)
  show ?thesis
    using e p m k c by (intro conjI)
qed

text \<open>
  C3. Every record returned by the similarity search has similarity_score in [0,1],
  correlation in [-1,1], cooccurrence_count (the number of users who rated both movies) at
  least cooccurrence_threshold and similarity_score at least similarity_threshold. The
  correlation is the one numpy computes for the two rating vectors, or 0 when that is not
  a number, and the score is the double nearest to the correlation plus 1, halved. Both
  thresholds are inclusive: a candidate is kept exactly when its count is at least the
  co-occurrence threshold, it has at least two rating pairs and its score is at least the
  similarity threshold; and the records are those of the kept candidates, up to top_n of
  them.
\<close>

theorem similarity_contract:
  assumes "similar_movies_with K engine target_movie thr cthr top_n ratings_df movies_df = Inr results"
  shows "(\<exists>t. find_target engine target_movie movies_df = Inr t \<and>
           (\<forall>r\<in>set results.
              cooccurrence_count r =
                int (card (common_users
                  (set (map r_user_id (target_movie_ratings (m_movie_id t) ratings_df)))
                  (filter (\<lambda>x. r_movie_id x = sm_movie_id r) (corated_movies (m_movie_id t) ratings_df)))) \<and>
              correlation r =
                pair_correlation_with K
                  (merged_ratings (target_movie_ratings (m_movie_id t) ratings_df)
                    (filter (\<lambda>x. r_movie_id x = sm_movie_id r) (corated_movies (m_movie_id t) ratings_df))
                    (common_users
                      (set (map r_user_id (target_movie_ratings (m_movie_id t) ratings_df)))
                      (filter (\<lambda>x. r_movie_id x = sm_movie_id r)
                        (corated_movies (m_movie_id t) ratings_df)))) \<and>
              similarity_score r = fl (correlation r + 1) / 2 \<and>
              sm_movie_id r \<in> set (kept_ids K (m_movie_id t) thr cthr ratings_df)) \<and>
           length results =
             (if 0 \<le> top_n
              then min (nat top_n) (length (kept_ids K (m_movie_id t) thr cthr ratings_df))
              else length (kept_ids K (m_movie_id t) thr cthr ratings_df) - nat (- top_n))) \<and>
         (\<forall>r\<in>set results.
            0 \<le> similarity_score r \<and> similarity_score r \<le> 1 \<and>
            - 1 \<le> correlation r \<and> correlation r \<le> 1 \<and>
            cthr \<le> cooccurrence_count r \<and>
            thr \<le> similarity_score r) \<and>
         (\<forall>tr tu mr.
            (candidate_similarity_with K tr tu thr cthr mr \<noteq> None) =
            (cthr \<le> int (card (common_users tu mr)) \<and>
             2 \<le> length (merged_ratings tr mr (common_users tu mr)) \<and>
             thr \<le> fl (pair_correlation_with K (merged_ratings tr mr (common_users tu mr)) + 1) / 2))"
proof -
  obtain t where t: "find_target engine target_movie movies_df = Inr t"
    and s: "similar_to_with K (m_movie_id t) thr cthr top_n ratings_df movies_df = Inr results"
    using similar_movies_with_target [OF assms] by blast
  let ?tr = "target_movie_ratings (m_movie_id t) ratings_df"
  have m: "cooccurrence_count r =
                int (card (common_users (set (map r_user_id ?tr))
                  (filter (\<lambda>x. r_movie_id x = sm_movie_id r) (corated_movies (m_movie_id t) ratings_df)))) \<and>
              correlation r =
                pair_correlation_with K
                  (merged_ratings ?tr
                    (filter (\<lambda>x. r_movie_id x = sm_movie_id r) (corated_movies (m_movie_id t) ratings_df))
                    (common_users (set (map r_user_id ?tr))
                      (filter (\<lambda>x. r_movie_id x = sm_movie_id r)
                        (corated_movies (m_movie_id t) ratings_df)))) \<and>
              similarity_score r = fl (correlation r + 1) / 2 \<and>
              sm_movie_id r \<in> set (kept_ids K (m_movie_id t) thr cthr ratings_df) \<and>
            0 \<le> similarity_score r \<and> similarity_score r \<le> 1 \<and>
            - 1 \<le> correlation r \<and> correlation r \<le> 1 \<and>
            cthr \<le> cooccurrence_count r \<and>
            thr \<le> similarity_score r"
    if rin: "r \<in> set results" for r
  proof -
    let ?mr = "filter (\<lambda>x. r_movie_id x = sm_movie_id r) (corated_movies (m_movie_id t) ratings_df)"
    obtain d where d: "candidate_similarity_with K ?tr (set (map r_user_id ?tr)) thr cthr ?mr = Some d"
      and f: "similarity_score r = sd_similarity_score d"
         "cooccurrence_count r = int (sd_cooccurrence_count d)"
         "correlation r = sd_correlation d"
      using similar_to_with_member [OF s rin] by blast
    note c = candidate_similarity_with_Some [OF d]
    let ?merged = "merged_ratings ?tr ?mr (common_users (set (map r_user_id ?tr)) ?mr)"
    have 1: "cooccurrence_count r = int (card (common_users (set (map r_user_id ?tr)) ?mr))"
      using f(2) c(1) by (simp only:)
    have 2: "similarity_score r = pair_similarity_with K ?merged"
      "correlation r = pair_correlation_with K ?merged"
      using f(1,3) c(2,3) by (simp_all only:)
    have 3: "cthr \<le> cooccurrence_count r" "thr \<le> similarity_score r"
      using f(1,2) c(4,5) by (simp_all only:)
    have 4: "similarity_score r = fl (correlation r + 1) / 2"
      unfolding 2 by (simp only: pair_similarity_with_def)
    have 5: "0 \<le> similarity_score r \<and> similarity_score r \<le> 1"
      unfolding 2 by (rule pair_similarity_with_range)
    have 6: "- 1 \<le> correlation r \<and> correlation r \<le> 1"
      unfolding 2 by (rule pair_correlation_with_range)
    obtain mid d' where x: "(mid, d') \<in> set (sorted_movies_with K (m_movie_id t) thr cthr top_n ratings_df)"
      and rr: "similar_record movies_df (mid, d') = Inr r"
      using collect_mem [OF s [unfolded similar_to_with_collect] rin] by (metis surj_pair)
    have "(mid, d') \<in> set (movie_similarities_with K (m_movie_id t) thr cthr ratings_df)"
      using x sorted_movies_with_subset by blast
    then have "mid \<in> set (map fst (movie_similarities_with K (m_movie_id t) thr cthr ratings_df))"
      by force
    then have 7: "sm_movie_id r \<in> set (kept_ids K (m_movie_id t) thr cthr ratings_df)"
      using similar_record_fields(1) [OF rr] by (simp only: movie_similarities_with_keys)
    show ?thesis
      using 1 2(2) 3 4 5 6 7 by blast
  qed
  have k: "(candidate_similarity_with K tr tu thr cthr mr \<noteq> None) =
            (cthr \<le> int (card (common_users tu mr)) \<and>
             2 \<le> length (merged_ratings tr mr (common_users tu mr)) \<and>
             thr \<le> fl (pair_correlation_with K (merged_ratings tr mr (common_users tu mr)) + 1) / 2)"
    for tr tu mr
    using candidate_similarity_with_kept [of K tr tu thr cthr mr]
    by (simp only: pair_similarity_with_def)
  show ?thesis
  proof (intro conjI exI [of _ t] ballI allI)
    show "find_target engine target_movie movies_df = Inr t" by (rule t)
    show "length results =
             (if 0 \<le> top_n
              then min (nat top_n) (length (kept_ids K (m_movie_id t) thr cthr ratings_df))
              else length (kept_ids K (m_movie_id t) thr cthr ratings_df) - nat (- top_n))"
      by (rule similar_to_with_length [OF s])
  qed (use m k in blast)+
qed


theorem similarity_contract_witness:
  "similar_movies_with exact_ops no_engine ''usual suspects'' (1 / 2) 2 10 ex_flat_ratings ex_sim_movies =
     Inr ex_flat_similar \<and>
   map sm_movie_id ex_flat_similar = [2, 3] \<and>
   map similarity_score ex_flat_similar = [1 / 2, 1 / 2] \<and>
   map correlation ex_flat_similar = [0, 0] \<and>
   map cooccurrence_count ex_flat_similar = [2, 3] \<and>
   kept_ids exact_ops 1 (1 / 2) 2 ex_flat_ratings = [2, 3] \<and>
   candidate_similarity_with exact_ops [mk_rating 1 1 5, mk_rating 2 1 5, mk_rating 3 1 4] {1, 2, 3}
     (1 / 2) 2 [mk_rating 1 2 3, mk_rating 2 2 4] \<noteq> None \<and>
   card (common_users {1, 2, 3} [mk_rating 1 2 3, mk_rating 2 2 4]) = 2 \<and>
   fl (pair_correlation_with exact_ops (merged_ratings [mk_rating 1 1 5, mk_rating 2 1 5, mk_rating 3 1 4]
     [mk_rating 1 2 3, mk_rating 2 2 4] (common_users {1, 2, 3} [mk_rating 1 2 3, mk_rating 2 2 4])) + 1) / 2 =
     1 / 2"
  using similarity_contract [OF flat_similarity_example] flat_similarity_example
  by (simp add: ex_flat_similar_def ex_flat_candidates ex_flat_kept)
     (simp add: common_users_def merged_ratings_def merge_on_def
      mk_rating_def pair_correlation_with_def target_vals_def movie_vals_def
      corrcoef_flat fl_one)

text \<open>
  C9. The title is not matched as a substring. At the target title
  ``Usual Suspects, The (1995)'', which occurs in the second and the third title of the
  table, the parentheses are read as a group: the title is searched without them, nothing
  matches, and the target is the first row of the fallback, whose title is another one.
\<close>

theorem target_title_with_parentheses:
  "map (\<lambda>m. title_matches (contains_literal ''Usual Suspects, The (1995)'') (m_title m))
     ex_target_movies = [False, True, True] \<and>
   compile_pattern no_engine ''Usual Suspects, The (1995)'' =
     Inr (contains_literal ''Usual Suspects, The 1995'') \<and>
   str_contains no_engine ''Usual Suspects, The (1995)'' ex_target_movies = Inr [] \<and>
   find_target no_engine ''Usual Suspects, The (1995)'' ex_target_movies =
     Inr (mk_movie 4 ''The Unusual Suspects'' None) \<and>
   map m_movie_id ex_target_movies = [4, 1, 5]"
  by (simp add: find_target_def str_contains_target str_contains_fallback)
     (simp add: ex_target_movies_def mk_movie_def title_matches_def matches_target compile_target)

text \<open>
  C10. No output list holds two records with the same natural key: each occupation occurs
  once in the demographic output, each movie_id once in the rating aggregation, each
  (occupation, age_group) segment once in the genre ranking, and so each (occupation,
  age_group, genre) triple once, and each movie_id once in the similarity output.
\<close>

theorem natural_keys_distinct:
  "distinct (map occupation (mean_age_by_occupation users1)) \<and>
   (top_rated_movies ratings2 movies2 min_ratings top_n = Inr top_rated \<longrightarrow>
      distinct (map movie_id top_rated)) \<and>
   (top_genres_by_occupation_age ratings3 users3 movie_genres3 = Inr segments \<longrightarrow>
      distinct (map (\<lambda>s. (sg_occupation s, sg_age_group s)) segments) \<and>
      distinct (concat (map (\<lambda>s. map (\<lambda>e. (sg_occupation s, sg_age_group s, snd (snd (genre e))))
        (top_genres s)) segments))) \<and>
   (similar_movies engine target_movie thr cthr top_k ratings4 movies4 = Inr similar \<longrightarrow>
      distinct (map sm_movie_id similar))"
proof (intro conjI impI)
  show "distinct (map occupation (mean_age_by_occupation users1))"
    by (rule demographic_distinct)
next
  assume "top_rated_movies ratings2 movies2 min_ratings top_n = Inr top_rated"
  then show "distinct (map movie_id top_rated)"
    by (rule top_rated_movies_distinct)
next
  assume a: "top_genres_by_occupation_age ratings3 users3 movie_genres3 = Inr segments"
  show "distinct (map (\<lambda>s. (sg_occupation s, sg_age_group s)) segments)"
    by (rule genre_keys_distinct(1) [OF a])
  show "distinct (concat (map (\<lambda>s. map (\<lambda>e. (sg_occupation s, sg_age_group s, snd (snd (genre e))))
        (top_genres s)) segments))"
    by (rule genre_keys_distinct(2) [OF a])
next
  assume "similar_movies engine target_movie thr cthr top_k ratings4 movies4 = Inr similar"
  then show "distinct (map sm_movie_id similar)"
    by (rule similar_movies_distinct)
qed

theorem natural_keys_distinct_witness:
  "map occupation (mean_age_by_occupation [u1, u2]) = [''engineer''] \<and>
   top_rated_movies ex_ratings ex_movies 2 2 = Inr ex_top_rated \<and>
   map movie_id ex_top_rated = [8, 7] \<and>
   top_genres_by_occupation_age ex_genre_ratings [u1, u2, u3] ex_movie_genres = Inr ex_segments \<and>
   map (\<lambda>s. (sg_occupation s, sg_age_group s)) ex_segments =
     [(''doctor'', ''35-45''), (''engineer'', ''25-35'')] \<and>
   concat (map (\<lambda>s. map (\<lambda>e. (sg_occupation s, sg_age_group s, snd (snd (genre e))))
        (top_genres s)) ex_segments) =
     [(''doctor'', ''35-45'', ''Drama''), (''engineer'', ''25-35'', ''Action''),
      (''engineer'', ''25-35'', ''Comedy''), (''engineer'', ''25-35'', ''War'')] \<and>
   similar_movies no_engine ''usual suspects'' (1 / 2) 2 10 ex_sim_ratings ex_sim_movies =
     Inr ex_similar \<and>
   map sm_movie_id ex_similar = [3, 2]"
  using natural_keys_distinct [where ?users1.0 = "[u1, u2]" and ?ratings2.0 = ex_ratings
      and ?movies2.0 = ex_movies and min_ratings = 2 and top_n = 2 and top_rated = ex_top_rated
      and ?ratings3.0 = ex_genre_ratings and ?users3.0 = "[u1, u2, u3]"
      and ?movie_genres3.0 = ex_movie_genres and segments = ex_segments
      and engine = no_engine and target_movie = "''usual suspects''" and thr = "1 / 2"
      and cthr = 2 and top_k = 10 and ?ratings4.0 = ex_sim_ratings and ?movies4.0 = ex_sim_movies
      and similar = ex_similar]
    top_rated_example genre_ranking_example similarity_example demographic_example
  by (simp add: ex_top_rated_def ex_segments_def ex_similar_def)

text \<open>
  C1 (as amended). An analysis invoked in the initial state, before any load, loads the
  dataset itself: when the load succeeds, the analysis returns what its body computes from
  the loaded tables and leaves them loaded; when the load fails, the analysis fails with
  the error of the loader. No analysis, in any state, fails with DataNotLoaded.
\<close>

theorem analyses_load_on_demand:
  "(download_and_load_data fs initial_globals = (Inr (), g') \<longrightarrow>
      (\<exists>ratings users movies movie_genres.
         fs_ratings fs = Some ratings \<and> fs_users fs = Some users \<and> fs_movies fs = Some movies \<and>
         RATINGS_DF g' = Some ratings \<and> USERS_DF g' = Some users \<and> MOVIES_DF g' = Some movies \<and>
         MOVIE_GENRES_DF g' = Some movie_genres \<and>
         analyze_mean_age_by_occupation fs initial_globals =
           (Inr (mean_age_by_occupation users), g') \<and>
         analyze_top_rated_movies min_ratings top_n fs initial_globals =
           (top_rated_movies ratings movies min_ratings top_n, g') \<and>
         analyze_top_genres_by_occupation_age fs initial_globals =
           (top_genres_by_occupation_age ratings users movie_genres, g') \<and>
         find_similar_movies engine target thr cthr top_k fs initial_globals =
           (similar_movies engine target thr cthr top_k ratings movies, g'))) \<and>
   (download_and_load_data fs initial_globals = (Inl e, g') \<longrightarrow>
      analyze_mean_age_by_occupation fs initial_globals = (Inl e, g') \<and>
      analyze_top_rated_movies min_ratings top_n fs initial_globals = (Inl e, g') \<and>
      analyze_top_genres_by_occupation_age fs initial_globals = (Inl e, g') \<and>
      find_similar_movies engine target thr cthr top_k fs initial_globals = (Inl e, g')) \<and>
   fst (analyze_mean_age_by_occupation fs g) \<noteq> Inl DataNotLoaded \<and>
   fst (analyze_top_rated_movies min_ratings top_n fs g) \<noteq> Inl DataNotLoaded \<and>
   fst (analyze_top_genres_by_occupation_age fs g) \<noteq> Inl DataNotLoaded \<and>
   fst (find_similar_movies engine target thr cthr top_k fs g) \<noteq> Inl DataNotLoaded"
proof (intro conjI impI)
  assume a: "download_and_load_data fs initial_globals = (Inr (), g')"
  then obtain ratings users movies genres movie_genres where t:
    "fs_ratings fs = Some ratings" "fs_users fs = Some users" "fs_movies fs = Some movies"
    "RATINGS_DF g' = Some ratings" "USERS_DF g' = Some users" "MOVIES_DF g' = Some movies"
    "MOVIE_GENRES_DF g' = Some movie_genres"
    using download_success [OF a] by blast
  note s = analyses_initial_success [OF a t(4) t(5) t(6) t(7)]
  show "\<exists>ratings users movies movie_genres.
         fs_ratings fs = Some ratings \<and> fs_users fs = Some users \<and> fs_movies fs = Some movies \<and>
         RATINGS_DF g' = Some ratings \<and> USERS_DF g' = Some users \<and> MOVIES_DF g' = Some movies \<and>
         MOVIE_GENRES_DF g' = Some movie_genres \<and>
         analyze_mean_age_by_occupation fs initial_globals =
           (Inr (mean_age_by_occupation users), g') \<and>
         analyze_top_rated_movies min_ratings top_n fs initial_globals =
           (top_rated_movies ratings movies min_ratings top_n, g') \<and>
         analyze_top_genres_by_occupation_age fs initial_globals =
           (top_genres_by_occupation_age ratings users movie_genres, g') \<and>
         find_similar_movies engine target thr cthr top_k fs initial_globals =
           (similar_movies engine target thr cthr top_k ratings movies, g')"
    using t s by blast
next
  assume a: "download_and_load_data fs initial_globals = (Inl e, g')"
  show "analyze_mean_age_by_occupation fs initial_globals = (Inl e, g')"
    "analyze_top_rated_movies min_ratings top_n fs initial_globals = (Inl e, g')"
    "analyze_top_genres_by_occupation_age fs initial_globals = (Inl e, g')"
    "find_similar_movies engine target thr cthr top_k fs initial_globals = (Inl e, g')"
    by (rule analyses_initial_failure [OF a])+
next
  show "fst (analyze_mean_age_by_occupation fs g) \<noteq> Inl DataNotLoaded"
    "fst (analyze_top_rated_movies min_ratings top_n fs g) \<noteq> Inl DataNotLoaded"
    "fst (analyze_top_genres_by_occupation_age fs g) \<noteq> Inl DataNotLoaded"
    "fst (find_similar_movies engine target thr cthr top_k fs g) \<noteq> Inl DataNotLoaded"
    by (rule analyses_never_not_loaded)+
qed

theorem analyses_load_on_demand_witness:
  "download_and_load_data ex_fs initial_globals = (Inr (), ex_loaded) \<and>
   analyze_mean_age_by_occupation ex_fs initial_globals =
     (Inr (mean_age_by_occupation [u1, u2]), ex_loaded) \<and>
   analyze_top_rated_movies 2 2 ex_fs initial_globals = (Inr ex_top_rated, ex_loaded) \<and>
   analyze_top_genres_by_occupation_age ex_fs initial_globals =
     (top_genres_by_occupation_age ex_ratings [u1, u2] ex_loaded_genres, ex_loaded) \<and>
   find_similar_movies no_engine ''usual suspects'' (1 / 2) 2 10 ex_fs initial_globals =
     (Inl MovieNotFound, ex_loaded) \<and>
   download_and_load_data ex_no_data initial_globals = (Inl DataDirectoryNotFound, initial_globals) \<and>
   analyze_mean_age_by_occupation ex_no_data initial_globals =
     (Inl DataDirectoryNotFound, initial_globals) \<and>
   analyze_top_rated_movies 2 2 ex_no_data initial_globals =
     (Inl DataDirectoryNotFound, initial_globals) \<and>
   analyze_top_genres_by_occupation_age ex_no_data initial_globals =
     (Inl DataDirectoryNotFound, initial_globals) \<and>
   find_similar_movies no_engine ''usual suspects'' (1 / 2) 2 10 ex_no_data initial_globals =
     (Inl DataDirectoryNotFound, initial_globals)"
proof -
  have m: "similar_movies no_engine ''usual suspects'' (1 / 2) 2 10 ex_ratings ex_movies =
             Inl MovieNotFound"
    by (simp add: similar_movies_def find_target_def str_contains_def ex_movies_def mk_movie_def
        title_matches_def)
  show ?thesis
    using analyses_load_on_demand [of ex_fs ex_loaded 2 2 no_engine "''usual suspects''"
        "1 / 2" 2 10 DataDirectoryNotFound initial_globals]
      analyses_load_on_demand [of ex_no_data initial_globals 2 2 no_engine "''usual suspects''"
        "1 / 2" 2 10 DataDirectoryNotFound initial_globals]
      ex_download ex_no_data_download top_rated_example m
    by (simp add: ex_fs_def ex_loaded_def)
qed

text \<open>
  C1 as stated fails: in the initial state, with the dataset on disk, the demographic
  aggregation and the rating aggregation return results computed from the tables they
  loaded themselves.
\<close>

theorem analysis_before_load_counterexample:
  "USERS_DF initial_globals = None \<and> RATINGS_DF initial_globals = None \<and>
   MOVIES_DF initial_globals = None \<and>
   fs_users ex_fs = Some [u1, u2] \<and>
   analyze_mean_age_by_occupation ex_fs initial_globals =
     (Inr [\<lparr>occupation = ''engineer'', mean_age = 30, user_count = 2, std_dev = 707 / 100,
            min_age = 25, max_age = 35\<rparr>], ex_loaded) \<and>
   analyze_top_rated_movies 2 2 ex_fs initial_globals = (Inr ex_top_rated, ex_loaded) \<and>
   USERS_DF ex_loaded = Some [u1, u2]"
proof -
  have l: "RATINGS_DF ex_loaded = Some ex_ratings" "USERS_DF ex_loaded = Some [u1, u2]"
    "MOVIES_DF ex_loaded = Some ex_movies" "MOVIE_GENRES_DF ex_loaded = Some ex_loaded_genres"
    by (simp_all add: ex_loaded_def)
  note s = analyses_initial_success [OF ex_download l]
  show ?thesis
    using s(1) s(2) [of 2 2] demographic_example top_rated_example
    by (simp add: initial_globals_def ex_fs_def l)
qed

end
